theory Spec2Isabelle
  imports Complex_Main "HOL-Library.Char_ord" "HOL-Library.List_Lexorder"
begin

section \<open>Python strings and values\<close>

text \<open>
  A Python \<open>str\<close> is modelled as a \<open>string\<close> whose characters are the code points
  below 256. \<open>str.isspace\<close>, \<open>str.lower\<close>, \<open>str.strip\<close>, \<open>str.split\<close> (no
  argument), the substring test \<open>sub in s\<close> and \<open>sep.join\<close> are written out for that range.
\<close>

definition whitespace_chars :: "char list" where
  "whitespace_chars = [CHR 0x09, CHR 0x0A, CHR 0x0B, CHR 0x0C, CHR 0x0D,
     CHR 0x1C, CHR 0x1D, CHR 0x1E, CHR 0x1F, CHR 0x20, CHR 0x85, CHR 0xA0]"

definition py_isspace :: "char \<Rightarrow> bool" where
  "py_isspace c = (c \<in> set whitespace_chars)"

definition upper_chars :: "char list" where
  "upper_chars = ''ABCDEFGHIJKLMNOPQRSTUVWXYZ'' @
     [CHR 0xC0, CHR 0xC1, CHR 0xC2, CHR 0xC3, CHR 0xC4, CHR 0xC5, CHR 0xC6, CHR 0xC7,
      CHR 0xC8, CHR 0xC9, CHR 0xCA, CHR 0xCB, CHR 0xCC, CHR 0xCD, CHR 0xCE, CHR 0xCF,
      CHR 0xD0, CHR 0xD1, CHR 0xD2, CHR 0xD3, CHR 0xD4, CHR 0xD5, CHR 0xD6,
      CHR 0xD8, CHR 0xD9, CHR 0xDA, CHR 0xDB, CHR 0xDC, CHR 0xDD, CHR 0xDE]"

definition lower_chars :: "char list" where
  "lower_chars = ''abcdefghijklmnopqrstuvwxyz'' @
     [CHR 0xE0, CHR 0xE1, CHR 0xE2, CHR 0xE3, CHR 0xE4, CHR 0xE5, CHR 0xE6, CHR 0xE7,
      CHR 0xE8, CHR 0xE9, CHR 0xEA, CHR 0xEB, CHR 0xEC, CHR 0xED, CHR 0xEE, CHR 0xEF,
      CHR 0xF0, CHR 0xF1, CHR 0xF2, CHR 0xF3, CHR 0xF4, CHR 0xF5, CHR 0xF6,
      CHR 0xF8, CHR 0xF9, CHR 0xFA, CHR 0xFB, CHR 0xFC, CHR 0xFD, CHR 0xFE]"

definition lower_char :: "char \<Rightarrow> char" where
  "lower_char c = (case map_of (zip upper_chars lower_chars) c of Some d \<Rightarrow> d | None \<Rightarrow> c)"

definition py_lower :: "string \<Rightarrow> string" where
  "py_lower s = map lower_char s"

definition py_strip :: "string \<Rightarrow> string" where
  "py_strip s = rev (dropWhile py_isspace (rev (dropWhile py_isspace s)))"

fun startswith :: "string \<Rightarrow> string \<Rightarrow> bool" where
  "startswith s [] = True"
| "startswith [] (p # ps) = False"
| "startswith (c # cs) (p # ps) = (c = p \<and> startswith cs ps)"

text \<open>\<open>py_in sub s\<close> is Python's \<open>sub in s\<close> on strings.\<close>

fun py_in :: "string \<Rightarrow> string \<Rightarrow> bool" where
  "py_in sub [] = (sub = [])"
| "py_in sub (c # cs) = (startswith (c # cs) sub \<or> py_in sub cs)"

text \<open>
  \<open>s.split()\<close>: the maximal runs of non-whitespace characters, in order. \<open>split_from w s\<close>
  carries the word read so far, reversed.
\<close>

fun split_from :: "string \<Rightarrow> string \<Rightarrow> string list" where
  "split_from w [] = (if w = [] then [] else [rev w])"
| "split_from w (c # cs) =
     (if py_isspace c then (if w = [] then split_from [] cs else rev w # split_from [] cs)
      else split_from (c # w) cs)"

definition py_split :: "string \<Rightarrow> string list" where
  "py_split s = split_from [] s"

fun py_join :: "string \<Rightarrow> string list \<Rightarrow> string" where
  "py_join sep [] = []"
| "py_join sep [x] = x"
| "py_join sep (x # y # ys) = x @ sep @ py_join sep (y # ys)"

text \<open>\<open>s.split(sep)\<close> for a one-character separator.\<close>

fun split_on :: "char \<Rightarrow> string \<Rightarrow> string \<Rightarrow> string list" where
  "split_on sep w [] = [rev w]"
| "split_on sep w (c # cs) =
     (if c = sep then rev w # split_on sep [] cs else split_on sep (c # w) cs)"

definition py_split_on :: "char \<Rightarrow> string \<Rightarrow> string list" where
  "py_split_on sep s = split_on sep [] s"

text \<open>\<open>w.title()\<close> for a word of lower-case letters: its first letter in upper case.\<close>

definition py_title_word :: "string \<Rightarrow> string" where
  "py_title_word w =
     (case w of
        [] \<Rightarrow> []
      | c # cs \<Rightarrow> (case map_of (zip lower_chars upper_chars) c of Some d \<Rightarrow> d | None \<Rightarrow> c) # cs)"

text \<open>\<open>any(k in s for k in ks)\<close>.\<close>

definition any_in :: "string list \<Rightarrow> string \<Rightarrow> bool" where
  "any_in ks s = list_ex (\<lambda>k. py_in k s) ks"

fun py_str_nat :: "nat \<Rightarrow> string" where
  "py_str_nat n = (if n < 10 then [''0123456789'' ! n]
                   else py_str_nat (n div 10) @ [''0123456789'' ! (n mod 10)])"

declare py_str_nat.simps [simp del]

text \<open>
  The values a \<open>Dict[str, Any]\<close> of the program holds, with Python's truth test. A missing
  key read with \<open>.get\<close> gives \<open>None\<close>.
\<close>

datatype pyval = PyNone | PyBool bool | PyInt int | PyFloat real | PyStr string

fun truthy :: "pyval \<Rightarrow> bool" where
  "truthy PyNone = False"
| "truthy (PyBool b) = b"
| "truthy (PyInt i) = (i \<noteq> 0)"
| "truthy (PyFloat x) = (x \<noteq> 0)"
| "truthy (PyStr s) = (s \<noteq> [])"

type_synonym pydict = "string \<rightharpoonup> pyval"

definition dict_get :: "pydict \<Rightarrow> string \<Rightarrow> pyval" where
  "dict_get d k = (case d k of None \<Rightarrow> PyNone | Some v \<Rightarrow> v)"

text \<open>
  \<open>list(set(xs))\<close> lists each element once, in an order Python does not fix. The functions
  that build such a list take the listing function as a parameter; \<open>set_listing\<close> is what
  every such function satisfies.
\<close>

definition set_listing :: "(string set \<Rightarrow> string list) \<Rightarrow> bool" where
  "set_listing order = (\<forall>S. finite S \<longrightarrow> set (order S) = S \<and> distinct (order S))"

datatype py_error =
    ValueError string
  | ConversationProcessingError string
  | StatementParsingError string
  | UnsupportedLanguageError string
  | IndexError string

section \<open>Cloud deployment (cloud\_deployment.py)\<close>

record deployment_config =
  provider :: string
  region :: string
  project_id :: "string option"
  resource_group :: "string option"
  credentials :: "pydict option"
  environment :: string

record deployment_result =
  success :: bool
  url :: "string option"
  deployment_id :: "string option"
  logs :: "string list option"
  error :: "string option"
  result_metadata :: "pydict option"

record deployment_package =
  directory :: string
  package_files :: "string \<rightharpoonup> string"
  package_config :: deployment_config

text \<open>
  The keys of \<open>self.providers\<close>. What stands behind them (SDK calls, command lines) and the
  file writes of \<open>_prepare_deployment_package\<close> are outside the program: they are the two
  fields of \<open>cloud_env\<close>, each returning either the message of the exception it raised or its
  result. \<open>deploy_application\<close> returns its result together with the external calls made.
\<close>

definition providers :: "string list" where
  "providers = [''aws'', ''gcp'', ''azure'', ''vercel'', ''netlify'', ''railway'', ''render'']"

record cloud_env =
  prepare_deployment_package ::
    "(string \<rightharpoonup> string) \<Rightarrow> deployment_config \<Rightarrow> string + deployment_package"
  deploy_func ::
    "string \<Rightarrow> deployment_package \<Rightarrow> deployment_config \<Rightarrow> string + deployment_result"

datatype cloud_call = PreparePackage | ProviderCall string

definition deployment_failed :: "string \<Rightarrow> deployment_result" where
  "deployment_failed e = \<lparr>success = False, url = None, deployment_id = None,
     logs = Some [''Deployment failed: '' @ e], error = Some e, result_metadata = None\<rparr>"

definition deploy_application ::
  "cloud_env \<Rightarrow> (string \<rightharpoonup> string) \<Rightarrow> deployment_config
     \<Rightarrow> deployment_result \<times> cloud_call list" where
  "deploy_application env files config =
     (if provider config \<notin> set providers then
        (\<lparr>success = False, url = None, deployment_id = None, logs = None,
          error = Some (''Unsupported provider: '' @ provider config),
          result_metadata = None\<rparr>, [])
      else
        (case prepare_deployment_package env files config of
           Inl e \<Rightarrow> (deployment_failed e, [PreparePackage])
         | Inr package \<Rightarrow>
             (case deploy_func env (provider config) package config of
                Inl e \<Rightarrow> (deployment_failed e, [PreparePackage, ProviderCall (provider config)])
              | Inr result \<Rightarrow> (result, [PreparePackage, ProviderCall (provider config)]))))"

section \<open>Core data model (src/core/models.py)\<close>

record system_requirements =
  functional_requirements :: "string list"
  non_functional_requirements :: "string list"
  constraints :: "string list"
  business_rules :: "string list"
  quality_attributes :: pydict
  extracted_entities :: "string list"
  confidence_score :: real

record system_component =
  name :: string
  component_type :: string
  responsibilities :: "string list"
  interfaces :: "string list"
  dependencies :: "string list"
  properties :: pydict
  component_metadata :: pydict

text \<open>The check of \<open>SystemComponent.__post_init__\<close>; the constructor raises where it fails.\<close>

definition component_post_init :: "system_component \<Rightarrow> py_error + system_component" where
  "component_post_init c =
     (if py_strip (name c) = [] then Inl (ValueError ''Component name cannot be empty'')
      else if py_strip (component_type c) = [] then
        Inl (ValueError ''Component type cannot be empty'')
      else Inr c)"

text \<open>
  A relationship is a dictionary read with \<open>.get\<close>: a key that is absent reads as \<open>None\<close>.
\<close>

record relationship =
  source :: "string option"
  target :: "string option"
  rel_type :: "string option"
  description :: "string option"

text \<open>
  A \<open>SystemArchitecture\<close> object is mutated in place by the architecture service; the
  model passes it as a value and returns the changed one. The components of the list are
  taken to be distinct objects. The technology stack is a dictionary iterated in insertion
  order: an association list.
\<close>

record system_architecture =
  components :: "system_component list"
  relationships :: "relationship list"
  patterns :: "string list"
  arch_quality_attributes :: pydict
  technology_stack :: "(string \<times> string list) list"
  deployment_model :: string
  arch_metadata :: pydict

definition architecture_post_init :: "system_architecture \<Rightarrow> py_error + system_architecture" where
  "architecture_post_init a =
     (if components a = [] then
        Inl (ValueError ''Architecture must contain at least one component'')
      else Inr a)"

definition get_component_by_name :: "system_architecture \<Rightarrow> string \<Rightarrow> system_component option" where
  "get_component_by_name a n = find (\<lambda>c. name c = n) (components a)"

text \<open>
  Assigning to an attribute of the component that \<open>get_component_by_name\<close> returned changes
  the first component of that name in the list, and no other.
\<close>

fun update_first :: "('a \<Rightarrow> bool) \<Rightarrow> ('a \<Rightarrow> 'a) \<Rightarrow> 'a list \<Rightarrow> 'a list" where
  "update_first P f [] = []"
| "update_first P f (x # xs) = (if P x then f x # xs else x # update_first P f xs)"

section \<open>Architecture service (src/services/architecture\_service.py)\<close>

subsection \<open>Optimization\<close>

definition cache_component :: system_component where
  "cache_component = \<lparr>name = ''CacheLayer'', component_type = ''cache'',
     responsibilities = [''Data caching'', ''Performance optimization''],
     interfaces = [''CacheInterface''], dependencies = [],
     properties = Map.empty, component_metadata = Map.empty\<rparr>"

definition lb_component :: system_component where
  "lb_component = \<lparr>name = ''LoadBalancer'', component_type = ''load_balancer'',
     responsibilities = [''Load distribution'', ''High availability''],
     interfaces = [''LoadBalancerInterface''], dependencies = [],
     properties = Map.empty, component_metadata = Map.empty\<rparr>"

definition queue_component :: system_component where
  "queue_component = \<lparr>name = ''MessageQueue'', component_type = ''message_queue'',
     responsibilities = [''Async message processing'', ''Service decoupling''],
     interfaces = [''MessageQueueInterface''], dependencies = [],
     properties = Map.empty, component_metadata = Map.empty\<rparr>"

definition auth_component :: system_component where
  "auth_component = \<lparr>name = ''AuthenticationService'', component_type = ''service'',
     responsibilities = [''User authentication'', ''Token management''],
     interfaces = [''AuthInterface''], dependencies = [],
     properties = Map.empty, component_metadata = Map.empty\<rparr>"

definition gateway_component :: system_component where
  "gateway_component = \<lparr>name = ''APIGateway'', component_type = ''api_gateway'',
     responsibilities = [''Request routing'', ''Authentication'', ''Rate limiting''],
     interfaces = [''GatewayInterface''], dependencies = [],
     properties = Map.empty, component_metadata = Map.empty\<rparr>"

definition has_type :: "string \<Rightarrow> system_architecture \<Rightarrow> bool" where
  "has_type t a = list_ex (\<lambda>c. component_type c = t) (components a)"

definition has_auth_name :: "system_architecture \<Rightarrow> bool" where
  "has_auth_name a = list_ex (\<lambda>c. py_in ''auth'' (py_lower (name c))) (components a)"

definition service_components :: "system_architecture \<Rightarrow> system_component list" where
  "service_components a = filter (\<lambda>c. component_type c = ''service'') (components a)"

definition append_component :: "system_component \<Rightarrow> system_architecture \<Rightarrow> system_architecture" where
  "append_component c a = a\<lparr>components := components a @ [c]\<rparr>"

definition optimize_for_performance :: "system_architecture \<Rightarrow> system_architecture" where
  "optimize_for_performance a =
     (let a1 = (if \<not> has_type ''cache'' a then append_component cache_component a else a)
      in if length (service_components a1) > 1 then
           (if \<not> has_type ''load_balancer'' a1 then append_component lb_component a1 else a1)
         else a1)"

definition optimize_for_scalability :: "system_architecture \<Rightarrow> system_architecture" where
  "optimize_for_scalability a =
     (let a1 = (if ''microservices'' \<notin> set (patterns a)
                then a\<lparr>patterns := patterns a @ [''microservices'']\<rparr> else a)
      in if \<not> has_type ''message_queue'' a1 then append_component queue_component a1 else a1)"

definition optimize_for_security :: "system_architecture \<Rightarrow> system_architecture" where
  "optimize_for_security a =
     (let a1 = (if \<not> has_auth_name a then append_component auth_component a else a)
      in if \<not> has_type ''api_gateway'' a1 then append_component gateway_component a1 else a1)"

definition flag :: "system_requirements \<Rightarrow> string \<Rightarrow> bool" where
  "flag requirements k = truthy (dict_get (quality_attributes requirements) k)"

definition optimize_architecture ::
  "system_architecture \<Rightarrow> system_requirements \<Rightarrow> system_architecture" where
  "optimize_architecture a requirements =
     (let a1 = (if flag requirements ''performance'' then optimize_for_performance a else a);
          a2 = (if flag requirements ''scalability'' then optimize_for_scalability a1 else a1)
      in if flag requirements ''security'' then optimize_for_security a2 else a2)"

subsection \<open>Issue messages\<close>

text \<open>The messages \<open>f"Component {component.name} has no responsibilities"\<close> and
  \<open>f"Component {component.name} has no type"\<close> of the validators.\<close>

definition issue_no_responsibilities :: "string \<Rightarrow> string" where
  "issue_no_responsibilities n = ''Component '' @ n @ '' has no responsibilities''"

definition issue_no_type :: "string \<Rightarrow> string" where
  "issue_no_type n = ''Component '' @ n @ '' has no type''"

subsection \<open>Auto-fix\<close>

definition fix_responsibilities :: "system_component \<Rightarrow> system_component" where
  "fix_responsibilities c =
     c\<lparr>responsibilities := [''Handle '' @ component_type c @ '' operations'']\<rparr>"

definition fix_type :: "system_component \<Rightarrow> system_component" where
  "fix_type c = c\<lparr>component_type := ''service''\<rparr>"

text \<open>\<open>issue.split()[1]\<close>, which raises \<open>IndexError\<close> on fewer than two words.\<close>

definition second_word :: "string \<Rightarrow> py_error + string" where
  "second_word issue =
     (case py_split issue of
        t0 # t1 # ts \<Rightarrow> Inr t1
      | _ \<Rightarrow> Inl (IndexError ''list index out of range''))"

definition fix_named ::
  "(system_component \<Rightarrow> system_component) \<Rightarrow> system_architecture \<Rightarrow> string
     \<Rightarrow> system_architecture" where
  "fix_named f a component_name =
     (case get_component_by_name a component_name of
        None \<Rightarrow> a
      | Some component \<Rightarrow>
          a\<lparr>components := update_first (\<lambda>c. name c = component_name) f (components a)\<rparr>)"

text \<open>The body of the loop of \<open>_auto_fix_architecture_issues\<close>, for one issue.\<close>

definition auto_fix_issue :: "system_architecture \<Rightarrow> string \<Rightarrow> py_error + system_architecture" where
  "auto_fix_issue a issue =
     (if py_in ''has no responsibilities'' issue then
        (case second_word issue of
           Inl e \<Rightarrow> Inl e
         | Inr component_name \<Rightarrow> Inr (fix_named fix_responsibilities a component_name))
      else if py_in ''has no type'' issue then
        (case second_word issue of
           Inl e \<Rightarrow> Inl e
         | Inr component_name \<Rightarrow> Inr (fix_named fix_type a component_name))
      else Inr a)"

fun auto_fix_architecture_issues ::
  "system_architecture \<Rightarrow> string list \<Rightarrow> py_error + system_architecture" where
  "auto_fix_architecture_issues a [] = Inr a"
| "auto_fix_architecture_issues a (issue # issues) =
     (case auto_fix_issue a issue of
        Inl e \<Rightarrow> Inl e
      | Inr a' \<Rightarrow> auto_fix_architecture_issues a' issues)"

subsection \<open>Pattern library\<close>

record pattern_component =
  pc_name :: string
  pc_type :: string
  pc_responsibilities :: "string list"

record pattern_config =
  pattern_description :: string
  pattern_components :: "pattern_component list"
  pattern_relationships :: "relationship list"
  pattern_requirements :: "string list"

definition library_relationship :: "string \<Rightarrow> string \<Rightarrow> string \<Rightarrow> relationship" where
  "library_relationship s t ty =
     \<lparr>source = Some s, target = Some t, rel_type = Some ty, description = None\<rparr>"

definition pattern_library :: "(string \<times> pattern_config) list" where
  "pattern_library =
    [(''layered'', \<lparr>pattern_description = ''Layered architecture pattern'',
        pattern_components =
          [\<lparr>pc_name = ''PresentationLayer'', pc_type = ''layer'', pc_responsibilities = [''UI handling'']\<rparr>,
           \<lparr>pc_name = ''BusinessLayer'', pc_type = ''layer'', pc_responsibilities = [''Business logic'']\<rparr>,
           \<lparr>pc_name = ''DataLayer'', pc_type = ''layer'', pc_responsibilities = [''Data access'']\<rparr>],
        pattern_relationships =
          [library_relationship ''PresentationLayer'' ''BusinessLayer'' ''depends_on'',
           library_relationship ''BusinessLayer'' ''DataLayer'' ''depends_on''],
        pattern_requirements = [''clear_separation_of_concerns'']\<rparr>),
     (''microservices'', \<lparr>pattern_description = ''Microservices architecture pattern'',
        pattern_components =
          [\<lparr>pc_name = ''APIGateway'', pc_type = ''api_gateway'', pc_responsibilities = [''Request routing'']\<rparr>,
           \<lparr>pc_name = ''ServiceRegistry'', pc_type = ''registry'', pc_responsibilities = [''Service discovery'']\<rparr>],
        pattern_relationships = [],
        pattern_requirements = [''service_independence'', ''distributed_deployment'']\<rparr>),
     (''mvc'', \<lparr>pattern_description = ''Model-View-Controller pattern'',
        pattern_components =
          [\<lparr>pc_name = ''Model'', pc_type = ''model'', pc_responsibilities = [''Data management'']\<rparr>,
           \<lparr>pc_name = ''View'', pc_type = ''view'', pc_responsibilities = [''UI presentation'']\<rparr>,
           \<lparr>pc_name = ''Controller'', pc_type = ''controller'', pc_responsibilities = [''Request handling'']\<rparr>],
        pattern_relationships =
          [library_relationship ''Controller'' ''Model'' ''uses'',
           library_relationship ''Controller'' ''View'' ''updates'',
           library_relationship ''View'' ''Model'' ''observes''],
        pattern_requirements = [''clear_mvc_separation'']\<rparr>),
     (''event_driven'', \<lparr>pattern_description = ''Event-driven architecture pattern'',
        pattern_components =
          [\<lparr>pc_name = ''EventBus'', pc_type = ''event_bus'', pc_responsibilities = [''Event routing'']\<rparr>,
           \<lparr>pc_name = ''EventStore'', pc_type = ''storage'', pc_responsibilities = [''Event persistence'']\<rparr>],
        pattern_relationships = [],
        pattern_requirements = [''event_based_communication'']\<rparr>)]"

definition check_pattern_requirement :: "system_architecture \<Rightarrow> string \<Rightarrow> bool" where
  "check_pattern_requirement a requirement =
     (if requirement = ''clear_separation_of_concerns'' then length (components a) \<ge> 3
      else if requirement = ''service_independence'' then
        length (filter (\<lambda>c. component_type c = ''service'') (components a)) \<ge> 2
      else if requirement = ''distributed_deployment'' then
        py_in ''microservices'' (py_lower (deployment_model a))
      else if requirement = ''clear_mvc_separation'' then
        {''model'', ''view'', ''controller''} \<subseteq> set (map component_type (components a))
      else if requirement = ''event_based_communication'' then
        list_ex (\<lambda>c. py_in ''event'' (component_type c)) (components a)
      else True)"

subsection \<open>Validation\<close>

text \<open>
  The validators receive the architecture object (for \<open>_validate_components\<close>, its component
  list) and could assign to it; each returns its issue list together with the object as it
  leaves it. The issue lists and name sets they build are local.
\<close>

definition validate_architecture :: "system_architecture \<Rightarrow> string list \<times> system_architecture" where
  "validate_architecture a =
     (let issues = [];
          issues = (if components a = [] then issues @ [''Architecture has no components'']
                    else issues);
          issues = (if patterns a = [] then issues @ [''Architecture has no patterns defined'']
                    else issues);
          issues = fold (\<lambda>component issues.
                      if responsibilities component = []
                      then issues @ [issue_no_responsibilities (name component)] else issues)
                    (components a) issues
      in (issues, a))"

definition validate_component_step ::
  "system_component \<Rightarrow> string list \<times> string set \<Rightarrow> string list \<times> string set" where
  "validate_component_step component st =
     (let (issues, component_names) = st;
          issues = (if name component \<in> component_names
                    then issues @ [''Duplicate component name: '' @ name component] else issues);
          component_names = insert (name component) component_names;
          issues = (if responsibilities component = []
                    then issues @ [issue_no_responsibilities (name component)] else issues);
          issues = (if component_type component = []
                    then issues @ [issue_no_type (name component)] else issues)
      in (issues, component_names))"

definition validate_components ::
  "system_component list \<Rightarrow> string list \<times> system_component list" where
  "validate_components cs =
     (if cs = [] then ([''Architecture has no components''], cs)
      else (fst (fold validate_component_step cs ([], {})), cs))"

definition falsy :: "string option \<Rightarrow> bool" where
  "falsy v = (v = None \<or> v = Some [])"

definition validate_relationship_step :: "string set \<Rightarrow> relationship \<Rightarrow> string list \<Rightarrow> string list" where
  "validate_relationship_step component_names rel issues =
     (if falsy (source rel) \<or> falsy (target rel)
      then issues @ [''Relationship missing source or target'']
      else
        (let issues = (if the (source rel) \<notin> component_names
                       then issues @ [''Relationship references unknown component: '' @ the (source rel)]
                       else issues)
         in if the (target rel) \<notin> component_names
            then issues @ [''Relationship references unknown component: '' @ the (target rel)]
            else issues))"

definition validate_relationships :: "system_architecture \<Rightarrow> string list \<times> system_architecture" where
  "validate_relationships a =
     (let component_names = set (map name (components a))
      in (fold (validate_relationship_step component_names) (relationships a) [], a))"

definition validate_pattern_step :: "system_architecture \<Rightarrow> string \<Rightarrow> string list \<Rightarrow> string list" where
  "validate_pattern_step a pattern issues =
     (case map_of pattern_library pattern of
        None \<Rightarrow> issues @ [''Unknown architectural pattern: '' @ pattern]
      | Some config \<Rightarrow>
          fold (\<lambda>requirement issues.
                  if \<not> check_pattern_requirement a requirement
                  then issues @ [''Pattern '' @ pattern @ '' requirement not met: '' @ requirement]
                  else issues)
               (pattern_requirements config) issues)"

definition validate_patterns :: "system_architecture \<Rightarrow> string list \<times> system_architecture" where
  "validate_patterns a = (fold (validate_pattern_step a) (patterns a) [], a)"

definition all_technologies :: "(string \<times> string list) list \<Rightarrow> string list" where
  "all_technologies tech_stack =
     fold (\<lambda>(category, techs) acc. acc @ map py_lower techs) tech_stack []"

definition conflict_rules :: "((string \<times> string) \<times> string) list" where
  "conflict_rules =
     [((''mysql'', ''postgresql''), ''Cannot use both MySQL and PostgreSQL''),
      ((''react'', ''vue''), ''Cannot use both React and Vue in frontend''),
      ((''express'', ''fastify''), ''Cannot use both Express and Fastify'')]"

definition check_technology_conflicts :: "(string \<times> string list) list \<Rightarrow> string list" where
  "check_technology_conflicts tech_stack =
     fold (\<lambda>((tech1, tech2), message) conflicts.
             if tech1 \<in> set (all_technologies tech_stack) \<and> tech2 \<in> set (all_technologies tech_stack)
             then conflicts @ [message] else conflicts)
          conflict_rules []"

definition dependency_rules :: "(string \<times> string list) list" where
  "dependency_rules =
     [(''react'', [''nodejs'']), (''vue'', [''nodejs'']), (''django'', [''python'']),
      (''flask'', [''python'']), (''spring'', [''java'']), (''express'', [''nodejs''])]"

definition check_missing_dependencies :: "(string \<times> string list) list \<Rightarrow> string list" where
  "check_missing_dependencies tech_stack =
     fold (\<lambda>(tech, deps) missing.
             if tech \<in> set (all_technologies tech_stack) then
               fold (\<lambda>dep missing.
                       if dep \<notin> set (all_technologies tech_stack)
                       then missing @ [''Technology '' @ tech @ '' requires '' @ dep]
                       else missing)
                    deps missing
             else missing)
          dependency_rules []"

definition validate_technology_stack :: "system_architecture \<Rightarrow> string list \<times> system_architecture" where
  "validate_technology_stack a =
     (let tech_stack = technology_stack a;
          issues = [];
          issues = issues @ check_technology_conflicts tech_stack;
          issues = issues @ check_missing_dependencies tech_stack
      in (issues, a))"

definition validate_architecture_comprehensive ::
  "system_architecture \<Rightarrow> string list \<times> system_architecture" where
  "validate_architecture_comprehensive a0 =
     (let issues = [];
          (basic_issues, a1) = validate_architecture a0;
          issues = issues @ basic_issues;
          (component_issues, cs) = validate_components (components a1);
          a2 = a1\<lparr>components := cs\<rparr>;
          issues = issues @ component_issues;
          (relationship_issues, a3) = validate_relationships a2;
          issues = issues @ relationship_issues;
          (pattern_issues, a4) = validate_patterns a3;
          issues = issues @ pattern_issues;
          (tech_issues, a5) = validate_technology_stack a4;
          issues = issues @ tech_issues
      in (issues, a5))"

subsection \<open>Applying patterns\<close>

definition component_of_pattern :: "pattern_component \<Rightarrow> system_component" where
  "component_of_pattern pc = \<lparr>name = pc_name pc, component_type = pc_type pc,
     responsibilities = pc_responsibilities pc, interfaces = [], dependencies = [],
     properties = Map.empty, component_metadata = Map.empty\<rparr>"

definition apply_pattern :: "system_architecture \<Rightarrow> string \<Rightarrow> system_architecture" where
  "apply_pattern a pattern =
     (let (pcs, rels) = (case map_of pattern_library pattern of
                           None \<Rightarrow> ([], [])
                         | Some config \<Rightarrow> (pattern_components config, pattern_relationships config));
          a = fold (\<lambda>comp_config a.
                      if \<not> list_ex (\<lambda>c. name c = pc_name comp_config) (components a)
                      then append_component (component_of_pattern comp_config) a else a)
                   pcs a;
          a = a\<lparr>relationships := relationships a @ rels\<rparr>
      in if pattern \<notin> set (patterns a) then a\<lparr>patterns := patterns a @ [pattern]\<rparr> else a)"

section \<open>Architectural inference (EnhancedArchitecturalInference)\<close>

text \<open>The list \<open>patterns\<close> that \<open>suggest_patterns\<close> builds, before its final
  \<open>list(set(patterns))\<close>.\<close>

definition suggested_list :: "system_requirements \<Rightarrow> string list" where
  "suggested_list requirements =
     (let patterns = [];
          func_reqs_text = py_lower (py_join '' '' (functional_requirements requirements));
          patterns = (if any_in [''api'', ''service'', ''microservice''] func_reqs_text
                      then patterns @ [''microservices''] else patterns);
          patterns = (if any_in [''web'', ''ui'', ''interface''] func_reqs_text
                      then patterns @ [''mvc''] else patterns);
          patterns = (if any_in [''event'', ''notification'', ''async''] func_reqs_text
                      then patterns @ [''event_driven''] else patterns);
          patterns = (if any_in [''layer'', ''tier''] func_reqs_text
                      then patterns @ [''layered''] else patterns);
          patterns = (if flag requirements ''scalability''
                      then patterns @ [''microservices''] else patterns);
          patterns = (if flag requirements ''performance''
                      then patterns @ [''caching''] else patterns);
          patterns = (if patterns = [] then patterns @ [''layered''] else patterns)
      in patterns)"

definition suggest_patterns ::
  "(string set \<Rightarrow> string list) \<Rightarrow> system_requirements \<Rightarrow> string list" where
  "suggest_patterns order requirements = order (set (suggested_list requirements))"

definition apply_architectural_patterns ::
  "(string set \<Rightarrow> string list) \<Rightarrow> system_architecture \<Rightarrow> system_requirements
     \<Rightarrow> system_architecture" where
  "apply_architectural_patterns order a requirements =
     fold (\<lambda>pattern a. if map_of pattern_library pattern \<noteq> None then apply_pattern a pattern else a)
          (suggest_patterns order requirements) a"

definition determine_architecture_type :: "system_requirements \<Rightarrow> string" where
  "determine_architecture_type requirements =
     (let func_reqs_text = py_lower (py_join '' '' (functional_requirements requirements))
      in if py_in ''microservice'' func_reqs_text then ''microservices''
         else if any_in [''web'', ''api'', ''rest''] func_reqs_text then ''web_application''
         else if py_in ''mobile'' func_reqs_text then ''mobile_application''
         else if any_in [''desktop'', ''gui''] func_reqs_text then ''desktop_application''
         else ''web_application'')"

definition template_component ::
  "string \<Rightarrow> string \<Rightarrow> string list \<Rightarrow> string list \<Rightarrow> string list \<Rightarrow> system_component" where
  "template_component n t rs ifs ds = \<lparr>name = n, component_type = t, responsibilities = rs,
     interfaces = ifs, dependencies = ds, properties = Map.empty, component_metadata = Map.empty\<rparr>"

definition component_templates :: "(string \<times> system_component) list" where
  "component_templates =
    [(''api'', template_component ''APIService'' ''api''
        [''Handle HTTP requests'', ''Route requests''] [''RestAPI'', ''HTTPInterface''] []),
     (''database'', template_component ''DatabaseService'' ''database''
        [''Data storage'', ''Data retrieval''] [''DatabaseInterface''] []),
     (''user'', template_component ''UserService'' ''service''
        [''User management'', ''Authentication''] [''UserInterface''] []),
     (''authentication'', template_component ''AuthenticationService'' ''service''
        [''User authentication'', ''Token management''] [''AuthInterface''] []),
     (''payment'', template_component ''PaymentService'' ''service''
        [''Payment processing'', ''Transaction management''] [''PaymentInterface''] []),
     (''notification'', template_component ''NotificationService'' ''service''
        [''Send notifications'', ''Message delivery''] [''NotificationInterface''] [])]"

definition get_default_components :: "system_component list" where
  "get_default_components =
    [template_component ''APIGateway'' ''api_gateway''
       [''Request routing'', ''Authentication''] [''HTTPInterface''] [],
     template_component ''BusinessService'' ''service''
       [''Business logic'', ''Data processing''] [''BusinessInterface''] [''DatabaseService''],
     template_component ''DatabaseService'' ''database''
       [''Data persistence'', ''Data retrieval''] [''DatabaseInterface''] []]"

definition generate_components :: "system_requirements \<Rightarrow> system_component list" where
  "generate_components requirements =
     (let components = fold (\<lambda>entity components.
                                case map_of component_templates entity of
                                  Some template \<Rightarrow> components @ [template]
                                | None \<Rightarrow> components)
                             (extracted_entities requirements) []
      in if components = [] then components @ get_default_components else components)"

definition calls_edge :: "system_component \<Rightarrow> system_component \<Rightarrow> relationship" where
  "calls_edge api_comp service_comp =
     \<lparr>source = Some (name api_comp), target = Some (name service_comp), rel_type = Some ''calls'',
      description = Some (name api_comp @ '' calls '' @ name service_comp)\<rparr>"

definition uses_edge :: "system_component \<Rightarrow> system_component \<Rightarrow> relationship" where
  "uses_edge service_comp db_comp =
     \<lparr>source = Some (name service_comp), target = Some (name db_comp), rel_type = Some ''uses'',
      description = Some (name service_comp @ '' uses '' @ name db_comp)\<rparr>"

definition api_typed :: "system_component \<Rightarrow> bool" where
  "api_typed c = py_in ''api'' (py_lower (component_type c))"

definition database_typed :: "system_component \<Rightarrow> bool" where
  "database_typed c = py_in ''database'' (py_lower (component_type c))"

definition service_typed :: "system_component \<Rightarrow> bool" where
  "service_typed c = (component_type c = ''service'')"

definition generate_relationships ::
  "system_component list \<Rightarrow> system_requirements \<Rightarrow> relationship list" where
  "generate_relationships cs requirements =
     (let relationships = [];
          api_components = filter api_typed cs;
          db_components = filter database_typed cs;
          service_components = filter service_typed cs;
          relationships =
            fold (\<lambda>api_comp relationships.
                    fold (\<lambda>service_comp relationships.
                            relationships @ [calls_edge api_comp service_comp])
                         service_components relationships)
                 api_components relationships;
          relationships =
            fold (\<lambda>service_comp relationships.
                    fold (\<lambda>db_comp relationships.
                            relationships @ [uses_edge service_comp db_comp])
                         db_components relationships)
                 service_components relationships
      in relationships)"

definition determine_technology_stack :: "system_requirements \<Rightarrow> (string \<times> string list) list" where
  "determine_technology_stack requirements =
     (let all_text = py_lower (py_join '' '' (functional_requirements requirements
                                              @ non_functional_requirements requirements));
          backend =
            (if py_in ''python'' all_text \<or> py_in ''django'' all_text \<or> py_in ''flask'' all_text
             then [''Python'', ''FastAPI'']
             else if py_in ''node'' all_text \<or> py_in ''javascript'' all_text
             then [''Node.js'', ''Express'']
             else if py_in ''java'' all_text \<or> py_in ''spring'' all_text
             then [''Java'', ''Spring Boot'']
             else [''Python'', ''FastAPI'']);
          frontend =
            (if py_in ''react'' all_text then [''React'']
             else if py_in ''vue'' all_text then [''Vue.js'']
             else if py_in ''angular'' all_text then [''Angular'']
             else [''React'']);
          database =
            (if py_in ''postgresql'' all_text \<or> py_in ''postgres'' all_text then [''PostgreSQL'']
             else if py_in ''mysql'' all_text then [''MySQL'']
             else if py_in ''mongodb'' all_text \<or> py_in ''mongo'' all_text then [''MongoDB'']
             else [''PostgreSQL''])
      in [(''backend'', backend), (''frontend'', frontend), (''database'', database),
          (''infrastructure'', [''Docker'', ''Kubernetes''])])"

definition determine_deployment_model :: "system_requirements \<Rightarrow> string" where
  "determine_deployment_model requirements =
     (let all_text = py_lower (py_join '' '' (functional_requirements requirements
                                              @ non_functional_requirements requirements))
      in if py_in ''cloud'' all_text \<or> py_in ''aws'' all_text \<or> py_in ''gcp'' all_text
         then ''cloud''
         else if py_in ''container'' all_text \<or> py_in ''docker'' all_text then ''containerized''
         else if py_in ''serverless'' all_text then ''serverless''
         else ''cloud'')"

text \<open>\<open>now\<close> is the text of \<open>datetime.now().isoformat()\<close> at the call.\<close>

definition infer_architecture ::
  "(string set \<Rightarrow> string list) \<Rightarrow> string \<Rightarrow> system_requirements
     \<Rightarrow> py_error + system_architecture" where
  "infer_architecture order now requirements =
     (let arch_type = determine_architecture_type requirements;
          cs = generate_components requirements;
          rels = generate_relationships cs requirements;
          ps = suggest_patterns order requirements;
          tech_stack = determine_technology_stack requirements;
          deployment = determine_deployment_model requirements
      in architecture_post_init
           \<lparr>components = cs, relationships = rels, patterns = ps,
            arch_quality_attributes = quality_attributes requirements,
            technology_stack = tech_stack, deployment_model = deployment,
            arch_metadata = [''architecture_type'' \<mapsto> PyStr arch_type,
                             ''inference_timestamp'' \<mapsto> PyStr now,
                             ''requirements_confidence'' \<mapsto> PyFloat (confidence_score requirements)]\<rparr>)"

section \<open>Conversation service (src/services/conversation\_service.py)\<close>

datatype statement_type = FUNCTIONAL | NON_FUNCTIONAL | CONSTRAINT | BUSINESS_RULE | EVOLUTION

text \<open>
  A \<open>Statement\<close>. The content is a \<open>str\<close>, as every use of it requires; the four other
  fields that \<open>_validate_statement\<close> tests against \<open>None\<close> may be \<open>None\<close>. The
  timestamp is the text of the \<open>datetime\<close>; the confidence, a float, is a real number.
\<close>

record statement =
  content :: string
  statement_context :: "pydict option"
  timestamp :: "string option"
  speaker :: "string option"
  statement_type :: "statement_type option"
  confidence :: real
  statement_metadata :: pydict

definition statement_post_init :: "statement \<Rightarrow> py_error + statement" where
  "statement_post_init s =
     (if py_strip (content s) = [] then Inl (ValueError ''Statement content cannot be empty'')
      else if \<not> (0 \<le> confidence s \<and> confidence s \<le> 1)
      then Inl (ValueError ''Confidence must be between 0 and 1'')
      else Inr s)"

record conversation =
  statements :: "statement list"
  conversation_metadata :: pydict
  conversation_id :: string
  created_at :: string
  updated_at :: string

definition conversation_post_init :: "conversation \<Rightarrow> py_error + conversation" where
  "conversation_post_init c =
     (if statements c = [] then
        Inl (ValueError ''Conversation must contain at least one statement'')
      else if conversation_id c = [] then Inl (ValueError ''Conversation ID cannot be empty'')
      else Inr c)"

definition requirements_post_init :: "system_requirements \<Rightarrow> py_error + system_requirements" where
  "requirements_post_init r =
     (if \<not> (0 \<le> confidence_score r \<and> confidence_score r \<le> 1)
      then Inl (ValueError ''Confidence score must be between 0 and 1'')
      else Inr r)"

text \<open>\<open>str(e)\<close> of an exception raised with one message.\<close>

fun error_message :: "py_error \<Rightarrow> string" where
  "error_message (ValueError m) = m"
| "error_message (ConversationProcessingError m) = m"
| "error_message (StatementParsingError m) = m"
| "error_message (UnsupportedLanguageError m) = m"
| "error_message (IndexError m) = m"

subsection \<open>Validation of a conversation\<close>

definition required_fields :: "string list" where
  "required_fields = [''content'', ''context'', ''timestamp'', ''speaker'', ''statement_type'']"

text \<open>\<open>not hasattr(statement, field) or getattr(statement, field) is None\<close>: every field
  of the dataclass exists.\<close>

definition field_missing :: "statement \<Rightarrow> string \<Rightarrow> bool" where
  "field_missing s field =
     (if field = ''content'' then False
      else if field = ''context'' then statement_context s = None
      else if field = ''timestamp'' then timestamp s = None
      else if field = ''speaker'' then speaker s = None
      else if field = ''statement_type'' then statement_type s = None
      else True)"

definition validate_statement :: "statement \<Rightarrow> py_error + unit" where
  "validate_statement s =
     (if py_strip (content s) = [] then Inl (StatementParsingError ''Statement content is empty'')
      else if length (content s) > 10000 then
        Inl (StatementParsingError ''Statement too long (>10000 characters)'')
      else
        (case find (field_missing s) required_fields of
           Some field \<Rightarrow>
             Inl (StatementParsingError (''Statement missing required field: '' @ field))
         | None \<Rightarrow> Inr ()))"

text \<open>The loop \<open>for i, statement in enumerate(conversation.statements)\<close>, from index \<open>i\<close>.\<close>

fun validate_statements_from :: "nat \<Rightarrow> statement list \<Rightarrow> py_error + unit" where
  "validate_statements_from i [] = Inr ()"
| "validate_statements_from i (s # ss) =
     (case validate_statement s of
        Inl e \<Rightarrow>
          Inl (ConversationProcessingError
                 (''Invalid statement at index '' @ py_str_nat i @ '': '' @ error_message e))
      | Inr u \<Rightarrow> validate_statements_from (Suc i) ss)"

definition validate_conversation :: "conversation \<Rightarrow> py_error + unit" where
  "validate_conversation c =
     (if statements c = [] then Inl (ConversationProcessingError ''Conversation has no statements'')
      else if length (statements c) > 1000 then
        Inl (ConversationProcessingError ''Conversation too long (>1000 statements)'')
      else validate_statements_from 0 (statements c))"

subsection \<open>The parser (EnhancedConversationalParser)\<close>

definition technical_keywords :: "string list" where
  "technical_keywords =
     [''api'', ''database'', ''user'', ''authentication'', ''authorization'',
      ''payment'', ''notification'', ''email'', ''sms'', ''file'', ''upload'',
      ''download'', ''search'', ''filter'', ''sort'', ''pagination'', ''cache'',
      ''session'', ''cookie'', ''token'', ''jwt'', ''oauth'', ''ssl'', ''https'',
      ''rest'', ''graphql'', ''websocket'', ''microservice'', ''container'',
      ''docker'', ''kubernetes'', ''aws'', ''gcp'', ''azure'']"

text \<open>The scan of \<open>extract_entities\<close> for a text that is not in the cache.\<close>

definition scan_entities :: "string \<Rightarrow> string list" where
  "scan_entities text_in = filter (\<lambda>keyword. py_in keyword (py_lower text_in)) technical_keywords"

text \<open>
  \<open>extract_entities\<close> reads and writes the parser's \<open>_entity_cache\<close>: it returns the
  entities and the cache after the call.
\<close>

type_synonym entity_cache = "string \<rightharpoonup> string list"

definition extract_entities :: "entity_cache \<Rightarrow> string \<Rightarrow> string list \<times> entity_cache" where
  "extract_entities cache text_in =
     (case cache text_in of
        Some entities \<Rightarrow> (entities, cache)
      | None \<Rightarrow> (let entities = scan_entities text_in in (entities, cache(text_in \<mapsto> entities))))"

definition action_patterns :: "string list" where
  "action_patterns = [''create'', ''build'', ''implement'', ''develop'', ''add'', ''remove'',
     ''update'', ''delete'', ''manage'', ''handle'', ''process'', ''generate'']"

definition extract_functional_requirements :: "statement \<Rightarrow> string list" where
  "extract_functional_requirements s =
     (let content_lower = py_lower (content s);
          requirements =
            fold (\<lambda>pattern requirements.
                    if py_in pattern content_lower then
                      fold (\<lambda>sentence requirements.
                              if py_in pattern (py_lower sentence)
                              then requirements @ [py_strip sentence] else requirements)
                           (py_split_on CHR ''.'' (content s)) requirements
                    else requirements)
                 action_patterns []
      in if requirements = [] then [content s] else requirements)"

definition quality_patterns :: "string list" where
  "quality_patterns = [''performance'', ''scalability'', ''security'', ''reliability'',
     ''availability'', ''usability'', ''maintainability'', ''portability'']"

definition extract_non_functional_requirements :: "statement \<Rightarrow> string list" where
  "extract_non_functional_requirements s =
     (let content_lower = py_lower (content s);
          requirements =
            fold (\<lambda>pattern requirements.
                    if py_in pattern content_lower
                    then requirements @ [py_title_word pattern @ '': '' @ content s]
                    else requirements)
                 quality_patterns []
      in if requirements = [] then [content s] else requirements)"

definition constraint_patterns :: "string list" where
  "constraint_patterns = [''must'', ''should'', ''cannot'', ''limited to'', ''restricted'',
     ''required'', ''mandatory'', ''forbidden'', ''not allowed'']"

text \<open>The loop appends the content at the first pattern found and breaks.\<close>

definition extract_constraints :: "statement \<Rightarrow> string list" where
  "extract_constraints s =
     (let constraints = (if any_in constraint_patterns (py_lower (content s))
                         then [content s] else [])
      in if constraints = [] then [content s] else constraints)"

definition rule_patterns :: "string list" where
  "rule_patterns = [''if'', ''when'', ''unless'', ''only if'', ''provided that'',
     ''business rule'', ''policy'', ''regulation'', ''compliance'']"

definition extract_business_rules :: "statement \<Rightarrow> string list" where
  "extract_business_rules s =
     (let rules = (if any_in rule_patterns (py_lower (content s)) then [content s] else [])
      in if rules = [] then [content s] else rules)"

definition extract_quality_attributes :: "conversation \<Rightarrow> pydict" where
  "extract_quality_attributes c =
     (let full_text = py_join '' '' (map (\<lambda>stmt. py_lower (content stmt)) (statements c))
      in fold (\<lambda>attribute attributes. attributes(attribute \<mapsto> PyBool (py_in attribute full_text)))
           [''performance'', ''scalability'', ''security'', ''reliability'', ''usability'']
           Map.empty)"

definition intent_keywords :: "string list" where
  "intent_keywords = [''create'', ''build'', ''implement'', ''need'', ''want'', ''should'', ''must'']"

text \<open>The score is the float quotient of the two counts; the model has the exact
  quotient.\<close>

definition calculate_parsing_confidence :: "conversation \<Rightarrow> real" where
  "calculate_parsing_confidence c =
     (let total_statements = length (statements c);
          parsed_statements =
            fold (\<lambda>s parsed. if any_in intent_keywords (py_lower (content s))
                              then parsed + 1 else parsed)
                 (statements c) (0::nat)
      in if total_statements > 0 then real parsed_statements / real total_statements else 0)"

record parse_state =
  functional_reqs :: "string list"
  non_functional_reqs :: "string list"
  constraints_acc :: "string list"
  business_rules_acc :: "string list"
  entities :: "string set"
  entity_cache_of :: entity_cache

text \<open>
  One iteration of the loop of \<open>parse_statements\<close>. Nothing in its \<open>try\<close> block raises on
  a statement of this type, so the \<open>except\<close> branch is not taken.
\<close>

definition parse_statement_step :: "statement \<Rightarrow> parse_state \<Rightarrow> parse_state" where
  "parse_statement_step s st =
     (let st = (case statement_type s of
                  Some FUNCTIONAL \<Rightarrow>
                    st\<lparr>functional_reqs := functional_reqs st @ extract_functional_requirements s\<rparr>
                | Some NON_FUNCTIONAL \<Rightarrow>
                    st\<lparr>non_functional_reqs :=
                         non_functional_reqs st @ extract_non_functional_requirements s\<rparr>
                | Some CONSTRAINT \<Rightarrow>
                    st\<lparr>constraints_acc := constraints_acc st @ extract_constraints s\<rparr>
                | Some BUSINESS_RULE \<Rightarrow>
                    st\<lparr>business_rules_acc := business_rules_acc st @ extract_business_rules s\<rparr>
                | _ \<Rightarrow> st);
          (statement_entities, cache) = extract_entities (entity_cache_of st) (content s)
      in st\<lparr>entities := entities st \<union> set statement_entities, entity_cache_of := cache\<rparr>)"

definition parse_statements ::
  "(string set \<Rightarrow> string list) \<Rightarrow> entity_cache \<Rightarrow> conversation
     \<Rightarrow> (py_error + system_requirements) \<times> entity_cache" where
  "parse_statements order cache c =
     (let st = fold parse_statement_step (statements c)
                 \<lparr>functional_reqs = [], non_functional_reqs = [], constraints_acc = [],
                  business_rules_acc = [], entities = {}, entity_cache_of = cache\<rparr>;
          confidence_value = calculate_parsing_confidence c
      in (requirements_post_init
            \<lparr>functional_requirements = functional_reqs st,
             non_functional_requirements = non_functional_reqs st,
             constraints = constraints_acc st,
             business_rules = business_rules_acc st,
             quality_attributes = extract_quality_attributes c,
             extracted_entities = order (entities st),
             confidence_score = confidence_value\<rparr>,
          entity_cache_of st))"

text \<open>
  Extraction: the \<open>try\<close> block of \<open>process_conversation\<close>, validation and then parsing.
  Whatever it raises, \<open>process_conversation\<close> catches and reports as the error of its result.
\<close>

definition extract_requirements ::
  "(string set \<Rightarrow> string list) \<Rightarrow> entity_cache \<Rightarrow> conversation
     \<Rightarrow> (py_error + system_requirements) \<times> entity_cache" where
  "extract_requirements order cache c =
     (case validate_conversation c of
        Inl e \<Rightarrow> (Inl e, cache)
      | Inr u \<Rightarrow> parse_statements order cache c)"

text \<open>The parser's cache holds, for a text, the entities its scan finds: so it is after
  the constructor (empty) and after every call.\<close>

definition cache_sound :: "entity_cache \<Rightarrow> bool" where
  "cache_sound cache = (\<forall>t es. cache t = Some es \<longrightarrow> es = scan_entities t)"

section \<open>Code generation (src/services/code\_generation\_service.py)\<close>

text \<open>
  The text of a generated file is kept as what it is made from: a template of
  \<open>_load_templates\<close> with the application name filled in, or the component file of
  \<open>_generate_component_file\<close> with the component's name and responsibilities. The template
  table has two entries, both non-empty texts that \<open>str.format\<close> accepts.
\<close>

datatype template = FastAPI_template | Axum_template

datatype source_text =
    Rendered template string
  | ComponentFile string "string list"

record generated_code =
  language :: string
  framework :: string
  files :: "string \<rightharpoonup> source_text"
  code_dependencies :: "string list"
  entry_point :: string
  build_commands :: "string list"
  run_commands :: "string list"
  code_metadata :: pydict

definition generated_code_post_init :: "generated_code \<Rightarrow> py_error + generated_code" where
  "generated_code_post_init g =
     (if py_strip (language g) = [] then Inl (ValueError ''Language cannot be empty'')
      else if files g = Map.empty then
        Inl (ValueError ''Generated code must contain at least one file'')
      else if entry_point g \<notin> dom (files g) then
        Inl (ValueError ''Entry point must be one of the generated files'')
      else Inr g)"

definition supported_languages :: "string list" where
  "supported_languages = [''python'', ''rust'', ''go'', ''typescript'', ''java'', ''cpp'']"

definition templates :: "((string \<times> string) \<times> template) list" where
  "templates = [((''python'', ''fastapi''), FastAPI_template), ((''rust'', ''axum''), Axum_template)]"

definition lookup_or :: "'v \<Rightarrow> (string \<times> 'v) list \<Rightarrow> string \<Rightarrow> 'v" where
  "lookup_or d table k = (case map_of table k of Some v \<Rightarrow> v | None \<Rightarrow> d)"

definition get_default_framework :: "string \<Rightarrow> string" where
  "get_default_framework lang =
     lookup_or ''default'' [(''python'', ''fastapi''), (''rust'', ''axum''), (''go'', ''gin''),
       (''typescript'', ''express''), (''java'', ''spring''), (''cpp'', ''crow'')] lang"

definition get_main_filename :: "string \<Rightarrow> string" where
  "get_main_filename lang =
     lookup_or ''main.txt'' [(''python'', ''main.py''), (''rust'', ''main.rs''), (''go'', ''main.go''),
       (''typescript'', ''index.ts''), (''java'', ''Main.java''), (''cpp'', ''main.cpp'')] lang"

definition extract_dependencies :: "string \<Rightarrow> string \<Rightarrow> string list" where
  "extract_dependencies lang fw =
     lookup_or []
       (lookup_or []
          [(''python'', [(''fastapi'', [''fastapi'', ''uvicorn'', ''pydantic'']),
                        (''flask'', [''flask'', ''flask-cors'']),
                        (''django'', [''django'', ''djangorestframework''])]),
           (''rust'', [(''axum'', [''axum'', ''tokio'', ''serde_json'']),
                      (''warp'', [''warp'', ''tokio'', ''serde_json''])]),
           (''go'', [(''gin'', [''github.com/gin-gonic/gin'']),
                    (''echo'', [''github.com/labstack/echo/v4''])])] lang) fw"

definition get_entry_point :: "string \<Rightarrow> string \<Rightarrow> string" where
  "get_entry_point lang fw = get_main_filename lang"

definition get_build_commands :: "string \<Rightarrow> string \<Rightarrow> string list" where
  "get_build_commands lang fw =
     lookup_or [] [(''python'', []), (''rust'', [''cargo build --release'']), (''go'', [''go build'']),
       (''typescript'', [''npm run build'']), (''java'', [''mvn compile'']), (''cpp'', [''make''])] lang"

definition get_run_commands :: "string \<Rightarrow> string \<Rightarrow> string list" where
  "get_run_commands lang fw =
     lookup_or [] [(''python'', [''python main.py'']), (''rust'', [''cargo run'']),
       (''go'', [''go run main.go'']), (''typescript'', [''npm start'']),
       (''java'', [''java Main'']), (''cpp'', [''./main''])] lang"

definition generate_component_file ::
  "system_component \<Rightarrow> string \<Rightarrow> string \<Rightarrow> (string \<times> source_text) option" where
  "generate_component_file component lang fw =
     (if lang = ''python''
      then Some (py_lower (name component) @ ''.py'',
                 ComponentFile (name component) (responsibilities component))
      else None)"

definition generate_files ::
  "system_architecture \<Rightarrow> string \<Rightarrow> string \<Rightarrow> (string \<rightharpoonup> source_text)" where
  "generate_files a lang fw =
     (let fs = Map.empty;
          fs = (case map_of templates (lang, fw) of
                  Some t \<Rightarrow> fs(get_main_filename lang \<mapsto> Rendered t ''generated_app'')
                | None \<Rightarrow> fs)
      in fold (\<lambda>component fs.
                 case generate_component_file component lang fw of
                   Some (filename, text_of) \<Rightarrow> fs(filename \<mapsto> text_of)
                 | None \<Rightarrow> fs)
              (components a) fs)"

text \<open>\<open>framework\<close> is the optional argument: \<open>None\<close> when it is left out.\<close>

definition generate_code ::
  "system_architecture \<Rightarrow> string \<Rightarrow> string option \<Rightarrow> py_error + generated_code" where
  "generate_code a lang framework_arg =
     (if lang \<notin> set supported_languages
      then Inl (UnsupportedLanguageError (''Language '' @ lang @ '' not supported''))
      else
        (let fw = (if framework_arg = None \<or> framework_arg = Some []
                   then get_default_framework lang else the framework_arg)
         in generated_code_post_init
              \<lparr>language = lang, framework = fw, files = generate_files a lang fw,
               code_dependencies = extract_dependencies lang fw,
               entry_point = get_entry_point lang fw,
               build_commands = get_build_commands lang fw,
               run_commands = get_run_commands lang fw,
               code_metadata = Map.empty\<rparr>))"

section \<open>Example inputs\<close>

definition user_service :: system_component where
  "user_service = \<lparr>name = ''UserService'', component_type = ''service'',
     responsibilities = [''User management''], interfaces = [''UserInterface''],
     dependencies = [], properties = Map.empty, component_metadata = Map.empty\<rparr>"

definition one_service :: system_architecture where
  "one_service = \<lparr>components = [user_service], relationships = [],
     patterns = [''layered''], arch_quality_attributes = Map.empty,
     technology_stack = [(''backend'', [''Python'', ''FastAPI''])],
     deployment_model = ''cloud'', arch_metadata = Map.empty\<rparr>"

definition requirements_with :: "pydict \<Rightarrow> system_requirements" where
  "requirements_with q = \<lparr>functional_requirements = [], non_functional_requirements = [],
     constraints = [], business_rules = [], quality_attributes = q,
     extracted_entities = [], confidence_score = 0\<rparr>"

definition perf_sec :: system_requirements where
  "perf_sec = requirements_with [''performance'' \<mapsto> PyBool True, ''security'' \<mapsto> PyBool True]"

definition perf_only :: system_requirements where
  "perf_only = requirements_with [''performance'' \<mapsto> PyBool True]"

definition report_service :: system_component where
  "report_service = \<lparr>name = ''Report Service'', component_type = ''service'',
     responsibilities = [], interfaces = [], dependencies = [],
     properties = Map.empty, component_metadata = Map.empty\<rparr>"

definition report :: system_component where
  "report = \<lparr>name = ''Report'', component_type = ''view'',
     responsibilities = [''Show reports''], interfaces = [], dependencies = [],
     properties = Map.empty, component_metadata = Map.empty\<rparr>"

definition reporting :: system_architecture where
  "reporting = \<lparr>components = [report_service, report], relationships = [],
     patterns = [''layered''], arch_quality_attributes = Map.empty,
     technology_stack = [], deployment_model = ''cloud'', arch_metadata = Map.empty\<rparr>"

definition upper_api :: system_component where
  "upper_api = \<lparr>name = ''Gateway'', component_type = ''API'',
     responsibilities = [''Route requests''], interfaces = [], dependencies = [],
     properties = Map.empty, component_metadata = Map.empty\<rparr>"

definition statement_of :: "string \<Rightarrow> statement" where
  "statement_of txt = \<lparr>content = txt, statement_context = Some Map.empty,
     timestamp = Some ''2024-01-01T00:00:00'', speaker = Some ''user'',
     statement_type = Some FUNCTIONAL, confidence = 0.9, statement_metadata = Map.empty\<rparr>"

definition conversation_of :: "statement list \<Rightarrow> conversation" where
  "conversation_of ss = \<lparr>statements = ss, conversation_metadata = Map.empty,
     conversation_id = ''conv-1'', created_at = ''2024-01-01T00:00:00'',
     updated_at = ''2024-01-01T00:00:00''\<rparr>"

definition implement_conversation :: conversation where
  "implement_conversation = conversation_of [statement_of ''Implement login'']"

definition long_conversation :: conversation where
  "long_conversation = conversation_of (replicate 1001 (statement_of ''Implement login''))"

definition every_keyword_conversation :: conversation where
  "every_keyword_conversation = conversation_of [statement_of (py_join '' '' technical_keywords)]"

text \<open>The number of components and patterns: no optimization pass lowers it.\<close>

definition arch_size :: "system_architecture \<Rightarrow> nat" where
  "arch_size a = length (components a) + length (patterns a)"




text \<open>What \<open>_validate_statement\<close> rejects.\<close>

definition statement_invalid :: "statement \<Rightarrow> bool" where
  "statement_invalid s =
     (py_strip (content s) = [] \<or> length (content s) > 10000 \<or> statement_context s = None \<or>
      timestamp s = None \<or> speaker s = None \<or> statement_type s = None)"

text \<open>The intent keywords as the specification lists them: without \<open>implement\<close>.\<close>

definition specified_intent_keywords :: "string list" where
  "specified_intent_keywords = [''create'', ''build'', ''need'', ''want'', ''should'', ''must'']"

section \<open>Properties\<close>

subsection \<open>Deployment to an unsupported provider\<close>

text \<open>
  C5. For every file bundle and every configuration whose provider is not one of aws, gcp,
  azure, vercel, netlify, railway, render, \<open>deploy_application\<close> returns the result with
  \<open>success = False\<close> and \<open>error = "Unsupported provider: <provider>"\<close> (every other field at
  its default \<open>None\<close>), and makes no external call: neither the package preparation nor a
  provider function runs. The function has no path that raises.
\<close>

theorem deploy_unsupported_provider:
  assumes "provider config \<notin> set providers"
  shows "deploy_application env bundle config =
           (\<lparr>success = False, url = None, deployment_id = None, logs = None,
             error = Some (''Unsupported provider: '' @ provider config),
             result_metadata = None\<rparr>, [])"
  using assms by (simp add: deploy_application_def)

theorem deploy_unsupported_provider_witness:
  "deploy_application
     \<lparr>prepare_deployment_package = (\<lambda>f c. Inl ''disk full''),
      deploy_func = (\<lambda>p k c. Inl ''no network'')\<rparr>
     [''main.py'' \<mapsto> ''print(1)'']
     \<lparr>provider = ''unknown'', region = ''us-east-1'', project_id = None,
      resource_group = None, credentials = None, environment = ''production''\<rparr>
   = (\<lparr>success = False, url = None, deployment_id = None, logs = None,
       error = Some ''Unsupported provider: unknown'', result_metadata = None\<rparr>, [])"
proof -
  have "provider \<lparr>provider = ''unknown'', region = ''us-east-1'', project_id = None,
      resource_group = None, credentials = None, environment = ''production''\<rparr>
        \<notin> set providers"
    by (simp add: providers_def)
  from deploy_unsupported_provider [OF this] show ?thesis by simp
qed


subsection \<open>Strings\<close>

lemma startswith_append: "startswith (p @ q) p"
  by (induction p) simp_all

lemma startswith_iff: "startswith s p \<longleftrightarrow> (\<exists>q. s = p @ q)"
  by (induction s p rule: startswith.induct) auto

lemma py_in_append: "py_in sub (p @ sub @ q)"
proof (induction p)
  case Nil
  show ?case by (cases "sub @ q") (use startswith_append[of sub q] in auto)
next
  case (Cons x p)
  then show ?case by simp
qed

lemma py_in_iff: "py_in sub s \<longleftrightarrow> (\<exists>p q. s = p @ sub @ q)"
proof (induction s)
  case Nil
  show ?case by auto
next
  case (Cons c cs)
  show ?case
  proof
    assume "py_in sub (c # cs)"
    then consider "startswith (c # cs) sub" | "py_in sub cs" by auto
    then show "\<exists>p q. c # cs = p @ sub @ q"
    proof cases
      case 1
      then obtain q where "c # cs = sub @ q" by (auto simp: startswith_iff)
      then have "c # cs = [] @ sub @ q" by simp
      then show ?thesis by blast
    next
      case 2
      then obtain p q where "cs = p @ sub @ q" using Cons by auto
      then have "c # cs = (c # p) @ sub @ q" by simp
      then show ?thesis by blast
    qed
  next
    assume "\<exists>p q. c # cs = p @ sub @ q"
    then obtain p q where "c # cs = p @ sub @ q" by auto
    then show "py_in sub (c # cs)" using py_in_append[of sub p q] by simp
  qed
qed

lemma split_from_space:
  "py_isspace c \<Longrightarrow> split_from w (xs @ c # ys) = split_from w xs @ split_from [] ys"
  by (induction xs arbitrary: w) simp_all


lemma split_from_nonempty:
  "w \<noteq> [] \<or> (\<exists>ch\<in>set s. \<not> py_isspace ch) \<Longrightarrow> split_from w s \<noteq> []"
  by (induction s arbitrary: w) auto

lemma py_strip_nonempty: "py_strip s \<noteq> [] \<longleftrightarrow> (\<exists>ch\<in>set s. \<not> py_isspace ch)"
proof -
  have d: "\<And>xs. dropWhile py_isspace xs \<noteq> [] \<longleftrightarrow> (\<exists>ch\<in>set xs. \<not> py_isspace ch)"
    by (simp add: dropWhile_eq_Nil_conv)
  have "py_strip s \<noteq> [] \<longleftrightarrow> (\<exists>ch\<in>set (dropWhile py_isspace s). \<not> py_isspace ch)"
    by (simp add: py_strip_def d)
  also have "\<dots> \<longleftrightarrow> dropWhile py_isspace s \<noteq> []"
  proof
    assume "\<exists>ch\<in>set (dropWhile py_isspace s). \<not> py_isspace ch"
    then show "dropWhile py_isspace s \<noteq> []" by (auto dest: set_dropWhileD)
  next
    assume n: "dropWhile py_isspace s \<noteq> []"
    then have "\<not> py_isspace (hd (dropWhile py_isspace s))" by (rule hd_dropWhile)
    moreover have "hd (dropWhile py_isspace s) \<in> set (dropWhile py_isspace s)"
      using n by simp
    ultimately show "\<exists>ch\<in>set (dropWhile py_isspace s). \<not> py_isspace ch" by blast
  qed
  finally show ?thesis by (simp add: d)
qed

lemma space_char: "py_isspace CHR '' ''"
  by (simp add: py_isspace_def whitespace_chars_def)

lemma split_component: "split_from [] ''Component'' = [''Component'']"
  by (simp add: py_isspace_def whitespace_chars_def)

lemma issue_words:
  "py_split (''Component '' @ n @ CHR '' '' # rest) = ''Component'' # py_split n @ py_split rest"
proof -
  have "py_split (''Component '' @ n @ CHR '' '' # rest)
          = split_from [] (''Component'' @ CHR '' '' # (n @ CHR '' '' # rest))"
    by (simp add: py_split_def)
  also have "\<dots> = split_from [] ''Component'' @ split_from [] (n @ CHR '' '' # rest)"
    by (rule split_from_space[OF space_char])
  also have "\<dots> = [''Component''] @ split_from [] n @ split_from [] rest"
    by (simp only: split_component split_from_space[OF space_char])
  finally show ?thesis by (simp add: py_split_def)
qed

lemma second_word_issue:
  assumes "py_strip n \<noteq> []"
  shows "second_word (''Component '' @ n @ CHR '' '' # rest) = Inr (hd (py_split n))"
proof -
  have "py_split n \<noteq> []"
    using assms by (simp add: py_strip_nonempty py_split_def split_from_nonempty)
  then obtain t ts where "py_split n = t # ts" by (cases "py_split n") auto
  then show ?thesis by (simp only: second_word_def issue_words) simp
qed


lemma update_first_none: "\<forall>x\<in>set xs. \<not> P x \<Longrightarrow> update_first P f xs = xs"
  by (induction xs) auto


lemma update_first_length: "length (update_first P f xs) = length xs"
  by (induction xs) auto


lemma fix_named_eq:
  "fix_named f a n = a\<lparr>components := update_first (\<lambda>c. name c = n) f (components a)\<rparr>"
proof (cases "get_component_by_name a n")
  case None
  then have "\<forall>c\<in>set (components a). \<not> name c = n"
    by (auto simp: get_component_by_name_def find_None_iff)
  then show ?thesis using None by (simp add: fix_named_def update_first_none)
next
  case (Some c)
  then show ?thesis by (simp add: fix_named_def)
qed

subsection \<open>Optimization passes\<close>

lemma lower_names:
  "py_lower ''CacheLayer'' = ''cachelayer''"
  "py_lower ''LoadBalancer'' = ''loadbalancer''"
  "py_lower ''MessageQueue'' = ''messagequeue''"
  "py_lower ''AuthenticationService'' = ''authenticationservice''"
  "py_lower ''APIGateway'' = ''apigateway''"
  by code_simp+

lemma added_auth_names:
  "py_in ''auth'' (py_lower (name cache_component)) = False"
  "py_in ''auth'' (py_lower (name lb_component)) = False"
  "py_in ''auth'' (py_lower (name queue_component)) = False"
  "py_in ''auth'' (py_lower (name auth_component)) = True"
  "py_in ''auth'' (py_lower (name gateway_component)) = False"
  by (simp_all add: cache_component_def lb_component_def queue_component_def
      auth_component_def gateway_component_def lower_names)

lemma added_types:
  "component_type cache_component = ''cache''"
  "component_type lb_component = ''load_balancer''"
  "component_type queue_component = ''message_queue''"
  "component_type auth_component = ''service''"
  "component_type gateway_component = ''api_gateway''"
  by (simp_all add: cache_component_def lb_component_def queue_component_def
      auth_component_def gateway_component_def)

lemma has_type_append:
  "has_type t (append_component c a) = (has_type t a \<or> component_type c = t)"
  by (auto simp: has_type_def append_component_def)

lemma has_auth_name_append:
  "has_auth_name (append_component c a) = (has_auth_name a \<or> py_in ''auth'' (py_lower (name c)))"
  by (auto simp: has_auth_name_def append_component_def)

lemma service_components_append:
  "service_components (append_component c a) =
     service_components a @ (if component_type c = ''service'' then [c] else [])"
  by (simp add: service_components_def append_component_def)

lemma patterns_append: "patterns (append_component c a) = patterns a"
  by (simp add: append_component_def)

lemma arch_size_append: "arch_size (append_component c a) = Suc (arch_size a)"
  by (simp add: append_component_def arch_size_def)

lemma has_type_patterns: "has_type t (a\<lparr>patterns := ps\<rparr>) = has_type t a"
  by (simp add: has_type_def)

lemma has_auth_patterns: "has_auth_name (a\<lparr>patterns := ps\<rparr>) = has_auth_name a"
  by (simp add: has_auth_name_def)

lemma service_components_patterns:
  "service_components (a\<lparr>patterns := ps\<rparr>) = service_components a"
  by (simp add: service_components_def)

lemma arch_size_patterns: "arch_size (a\<lparr>patterns := ps\<rparr>) = length (components a) + length ps"
  by (simp add: arch_size_def)

lemma components_patterns: "components (a\<lparr>patterns := ps\<rparr>) = components a"
  by simp

lemmas obs = arch_size_patterns has_type_append has_auth_name_append service_components_append patterns_append
  arch_size_append has_type_patterns has_auth_patterns service_components_patterns
  added_types added_auth_names





























lemma lower_user_service: "py_lower ''UserService'' = ''userservice''"
  by code_simp

lemma one_service_facts:
  "\<not> has_auth_name one_service" "length (service_components one_service) = 1"
  "\<not> has_type ''load_balancer'' one_service" "\<not> has_type ''cache'' one_service"
  "\<not> has_type ''api_gateway'' one_service"
  by (simp_all add: one_service_def user_service_def has_auth_name_def service_components_def
      has_type_def lower_user_service)

lemma flags_perf_sec: "flag perf_sec ''performance''" "flag perf_sec ''security''"
  "\<not> flag perf_sec ''scalability''"
  by (simp_all add: perf_sec_def requirements_with_def flag_def dict_get_def)

lemma flags_perf_only: "flag perf_only ''performance''" "\<not> flag perf_only ''security''"
  "\<not> flag perf_only ''scalability''"
  by (simp_all add: perf_only_def requirements_with_def flag_def dict_get_def)

lemma optimize_one_service:
  "components (optimize_architecture one_service perf_sec)
     = [user_service, cache_component, auth_component, gateway_component]"
proof -
  have "optimize_architecture one_service perf_sec
          = append_component gateway_component (append_component auth_component
              (append_component cache_component one_service))"
    by (simp add: optimize_architecture_def Let_def flags_perf_sec optimize_for_performance_def
        optimize_for_security_def obs one_service_facts)
  then show ?thesis by (simp add: append_component_def one_service_def)
qed




subsection \<open>Auto-fix and names with whitespace\<close>

lemma has_no_in_issue:
  "py_in ''has no responsibilities'' (issue_no_responsibilities n)"
  "py_in ''has no type'' (issue_no_type n)"
  using py_in_append[of "''has no responsibilities''" "''Component '' @ n @ '' ''" "[]"]
    py_in_append[of "''has no type''" "''Component '' @ n @ '' ''" "[]"]
  by (simp_all add: issue_no_responsibilities_def issue_no_type_def)

lemma second_word_of_issue:
  assumes "py_strip n \<noteq> []"
  shows "second_word (issue_no_responsibilities n) = Inr (hd (py_split n))"
    and "second_word (issue_no_type n) = Inr (hd (py_split n))"
  using second_word_issue[OF assms, of "''has no responsibilities''"]
    second_word_issue[OF assms, of "''has no type''"]
  by (simp_all add: issue_no_responsibilities_def issue_no_type_def)

lemma auto_fix_issue_component:
  assumes "py_strip n \<noteq> []"
  shows "auto_fix_issue a (issue_no_responsibilities n)
           = Inr (fix_named fix_responsibilities a (hd (py_split n)))"
    and "auto_fix_issue a (issue_no_type n)
           = Inr (fix_named
               (if py_in ''has no responsibilities'' (issue_no_type n)
                then fix_responsibilities else fix_type) a (hd (py_split n)))"
  by (simp_all add: auto_fix_issue_def has_no_in_issue second_word_of_issue[OF assms])


lemma report_service_name:
  "name report_service = ''Report Service''" "components reporting = [report_service, report]"
  "name report = ''Report''"
  by (simp_all add: report_service_def reporting_def report_def)

lemma split_report_service: "py_split ''Report Service'' = [''Report'', ''Service'']"
  by (simp add: py_split_def py_isspace_def whitespace_chars_def)



subsection \<open>Relationships, validation and patterns\<close>

lemma fold_snoc_map: "fold (\<lambda>x acc. acc @ [f x]) xs acc = acc @ map f xs"
  by (induction xs arbitrary: acc) simp_all

lemma fold_product:
  "fold (\<lambda>x acc. fold (\<lambda>y acc. acc @ [f x y]) ys acc) xs acc
     = acc @ map (\<lambda>(x, y). f x y) (List.product xs ys)"
  by (induction xs arbitrary: acc) (simp_all add: fold_snoc_map)

text \<open>
  C3. For every list of components, \<open>generate_relationships\<close> returns exactly the all-pairs
  cross product, in this order: one \<open>calls\<close> edge from every component whose lower-cased
  type contains \<open>api\<close> to every component whose type is exactly \<open>service\<close>, then one
  \<open>uses\<close> edge from every component of type exactly \<open>service\<close> to every component whose
  lower-cased type contains \<open>database\<close>. Hence the number of relationships is
  |api| * |service| + |service| * |database|, the three groups taken with that
  case-insensitive test for api and database.
\<close>

theorem generate_relationships_cross_product:
  "generate_relationships cs r =
     map (\<lambda>(a, s). calls_edge a s) (List.product (filter api_typed cs) (filter service_typed cs))
     @ map (\<lambda>(s, d). uses_edge s d)
         (List.product (filter service_typed cs) (filter database_typed cs))
   \<and> length (generate_relationships cs r) =
       length (filter api_typed cs) * length (filter service_typed cs)
       + length (filter service_typed cs) * length (filter database_typed cs)"
  by (simp add: generate_relationships_def Let_def fold_product)

lemma lower_API: "py_lower ''API'' = ''api''" "py_lower ''service'' = ''service''"
  by code_simp+

lemma upper_api_edges:
  "generate_relationships [upper_api, user_service] perf_only = [calls_edge upper_api user_service]"
  by (simp add: generate_relationships_def Let_def api_typed_def database_typed_def
      service_typed_def upper_api_def user_service_def lower_API)

text \<open>
  A component of type \<open>API\<close>, whose type does not contain \<open>api\<close>, gets its \<open>calls\<close> edge
  to the service: one relationship, where counting the types that contain \<open>api\<close> gives none.
\<close>

theorem generate_relationships_counterexample:
  "\<not> py_in ''api'' (component_type upper_api) \<and>
   generate_relationships [upper_api, user_service] perf_only
     = [calls_edge upper_api user_service] \<and>
   length (generate_relationships [upper_api, user_service] perf_only) \<noteq>
     length (filter (\<lambda>c. py_in ''api'' (component_type c)) [upper_api, user_service])
       * length (filter (\<lambda>c. component_type c = ''service'') [upper_api, user_service])
     + length (filter (\<lambda>c. component_type c = ''service'') [upper_api, user_service])
       * length (filter (\<lambda>c. py_in ''database'' (component_type c)) [upper_api, user_service])"
  by (simp add: upper_api_edges) (simp add: upper_api_def user_service_def)

theorem generate_relationships_witness:
  "length (generate_relationships [upper_api, user_service] perf_only) = 1"
  using generate_relationships_cross_product[of "[upper_api, user_service]" perf_only]
  by (simp add: api_typed_def database_typed_def service_typed_def upper_api_def
      user_service_def lower_API)

lemma validators_snd:
  "snd (validate_architecture a) = a"
  "snd (validate_components cs) = cs"
  "snd (validate_relationships a) = a"
  "snd (validate_patterns a) = a"
  "snd (validate_technology_stack a) = a"
  by (simp_all add: validate_architecture_def validate_components_def
      validate_relationships_def validate_patterns_def validate_technology_stack_def Let_def)

lemma auto_fix_reporting:
  "auto_fix_architecture_issues reporting [issue_no_responsibilities ''Report Service'']
     = Inr (reporting\<lparr>components :=
              [report_service, report\<lparr>responsibilities := [''Handle view operations'']\<rparr>]\<rparr>)"
proof -
  have s: "py_strip ''Report Service'' \<noteq> []"
    by (simp add: py_strip_nonempty py_isspace_def whitespace_chars_def)
  have f: "fix_responsibilities report = report\<lparr>responsibilities := [''Handle view operations'']\<rparr>"
    by (simp add: fix_responsibilities_def report_def)
  show ?thesis
    by (simp add: auto_fix_issue_component[OF s] fix_named_eq split_report_service
        report_service_name f)
qed

lemma auto_fix_changes_reporting:
  "auto_fix_architecture_issues reporting [issue_no_responsibilities ''Report Service'']
     \<noteq> Inr reporting"
proof
  assume "auto_fix_architecture_issues reporting [issue_no_responsibilities ''Report Service'']
            = Inr reporting"
  then have "reporting\<lparr>components :=
              [report_service, report\<lparr>responsibilities := [''Handle view operations'']\<rparr>]\<rparr>
             = reporting"
    unfolding auto_fix_reporting by (simp only: sum.inject)
  then have "components (reporting\<lparr>components :=
              [report_service, report\<lparr>responsibilities := [''Handle view operations'']\<rparr>]\<rparr>)
             = components reporting"
    by simp
  then have "responsibilities (report\<lparr>responsibilities := [''Handle view operations'']\<rparr>)
               = responsibilities report"
    by (simp add: report_service_name)
  then show False by (simp add: report_def)
qed

text \<open>
  C8. Comprehensive validation is read-only: \<open>validate_architecture_comprehensive\<close>
  returns its issue list and leaves the architecture (components, relationships, patterns,
  quality attributes, technology stack, deployment model, metadata) exactly as it was.
  The auto-fix step is the one that changes it, as on the architecture \<open>reporting\<close>.
\<close>

theorem validate_read_only:
  "snd (validate_architecture_comprehensive a) = a \<and>
   auto_fix_architecture_issues reporting [issue_no_responsibilities ''Report Service'']
     \<noteq> Inr reporting"
proof (rule conjI)
  show "snd (validate_architecture_comprehensive a) = a"
    by (simp add: validate_architecture_comprehensive_def Let_def split_def validators_snd)
  show "auto_fix_architecture_issues reporting [issue_no_responsibilities ''Report Service'']
          \<noteq> Inr reporting"
    by (rule auto_fix_changes_reporting)
qed

theorem validate_read_only_witness:
  "snd (validate_architecture_comprehensive reporting) = reporting"
  using validate_read_only[of reporting] by simp

lemma validate_issues:
  "fst (validate_architecture_comprehensive a) =
     fst (validate_architecture a) @ fst (validate_components (components a))
     @ fst (validate_relationships a) @ fst (validate_patterns a)
     @ fst (validate_technology_stack a)"
  by (simp add: validate_architecture_comprehensive_def Let_def split_def validators_snd)

lemma requirement_fold_mono:
  "x \<in> set issues \<Longrightarrow>
   x \<in> set (fold (\<lambda>requirement issues. if P requirement then issues @ [m requirement] else issues)
              reqs issues)"
  by (induction reqs arbitrary: issues) simp_all

lemma pattern_step_mono: "x \<in> set issues \<Longrightarrow> x \<in> set (validate_pattern_step a p issues)"
  by (cases "map_of pattern_library p")
     (simp_all add: validate_pattern_step_def requirement_fold_mono)

lemma pattern_fold_mono:
  "x \<in> set issues \<Longrightarrow> x \<in> set (fold (validate_pattern_step a) ps issues)"
  by (induction ps arbitrary: issues) (simp_all add: pattern_step_mono)

lemma unknown_pattern_reported:
  "p \<in> set ps \<Longrightarrow> map_of pattern_library p = None \<Longrightarrow>
   ''Unknown architectural pattern: '' @ p \<in> set (fold (validate_pattern_step b) ps issues)"
proof (induction ps arbitrary: issues)
  case Nil
  then show ?case by simp
next
  case (Cons q ps)
  show ?case
  proof (cases "q = p")
    case True
    have "''Unknown architectural pattern: '' @ p \<in> set (validate_pattern_step b p issues)"
      using Cons.prems(2) by (simp add: validate_pattern_step_def)
    then show ?thesis using True by (simp add: pattern_fold_mono)
  next
    case False
    with Cons show ?thesis by simp
  qed
qed

lemma caching_unknown: "map_of pattern_library ''caching'' = None"
  by (simp add: pattern_library_def)

lemma caching_reported:
  assumes "''caching'' \<in> set (patterns a)"
  shows "''Unknown architectural pattern: caching'' \<in> set (fst (validate_architecture_comprehensive a))"
proof -
  have "''Unknown architectural pattern: '' @ ''caching''
          \<in> set (fold (validate_pattern_step a) (patterns a) [])"
    using assms caching_unknown by (rule unknown_pattern_reported)
  then show ?thesis by (simp add: validate_issues validate_patterns_def)
qed

lemma caching_suggested:
  assumes "set_listing order" and "flag r ''performance''"
  shows "''caching'' \<in> set (suggest_patterns order r)"
proof -
  have l: "set (order (set ps)) = set ps" for ps
    using assms(1) by (simp add: set_listing_def)
  have "''caching'' \<in> set (suggested_list r)"
    using assms(2) by (simp add: suggested_list_def Let_def)
  then show ?thesis by (simp add: suggest_patterns_def l)
qed

lemma generate_components_nonempty: "generate_components r \<noteq> []"
  by (simp add: generate_components_def Let_def get_default_components_def)

lemma apply_pattern_keeps: "p \<in> set (patterns a) \<Longrightarrow> p \<in> set (patterns (apply_pattern a q))"
proof -
  have f: "patterns (fold (\<lambda>comp_config a.
                      if \<not> list_ex (\<lambda>c. name c = pc_name comp_config) (components a)
                      then append_component (component_of_pattern comp_config) a else a)
                   pcs a) = patterns a" for pcs a
    by (induction pcs arbitrary: a) (simp_all add: append_component_def)
  assume "p \<in> set (patterns a)"
  then show ?thesis by (simp add: apply_pattern_def Let_def split_def f)
qed

lemma apply_patterns_keeps:
  "p \<in> set (patterns a) \<Longrightarrow> p \<in> set (patterns (apply_architectural_patterns order a r))"
proof -
  have "p \<in> set (patterns a) \<Longrightarrow>
        p \<in> set (patterns (fold (\<lambda>pattern a. if map_of pattern_library pattern \<noteq> None
                                  then apply_pattern a pattern else a) ps a))" for ps
    by (induction ps arbitrary: a) (simp_all add: apply_pattern_keeps)
  then show "p \<in> set (patterns a) \<Longrightarrow> ?thesis"
    by (simp add: apply_architectural_patterns_def)
qed

text \<open>
  C9. For every requirements value whose \<open>performance\<close> quality attribute is truthy,
  inference succeeds and the pattern list of the inferred architecture contains
  \<open>caching\<close>, which is not a key of the pattern library; so comprehensive validation of
  that architecture, and of that architecture after the suggested patterns are applied,
  reports "Unknown architectural pattern: caching".
\<close>

theorem performance_pattern_unknown:
  assumes "set_listing order" and "flag requirements ''performance''"
  shows "\<exists>a. infer_architecture order now requirements = Inr a \<and>
           ''caching'' \<in> set (patterns a) \<and>
           map_of pattern_library ''caching'' = None \<and>
           ''Unknown architectural pattern: caching''
              \<in> set (fst (validate_architecture_comprehensive a)) \<and>
           ''Unknown architectural pattern: caching''
              \<in> set (fst (validate_architecture_comprehensive
                          (apply_architectural_patterns order a requirements)))"
proof -
  obtain a where a: "infer_architecture order now requirements = Inr a"
    and p: "patterns a = suggest_patterns order requirements"
    by (simp add: infer_architecture_def Let_def architecture_post_init_def
        generate_components_nonempty)
  have c: "''caching'' \<in> set (patterns a)"
    using caching_suggested[OF assms] by (simp add: p)
  from a c caching_unknown caching_reported[OF c]
    caching_reported[OF apply_patterns_keeps[OF c]]
  show ?thesis by blast
qed

lemma listing_sorted: "set_listing sorted_list_of_set"
  by (simp add: set_listing_def)

theorem performance_pattern_unknown_witness:
  "\<exists>a. infer_architecture sorted_list_of_set ''2024-01-01T00:00:00'' perf_only = Inr a \<and>
        ''Unknown architectural pattern: caching''
           \<in> set (fst (validate_architecture_comprehensive a))"
proof -
  have "flag perf_only ''performance''" by (rule flags_perf_only)
  from performance_pattern_unknown[OF listing_sorted this] show ?thesis by blast
qed


subsection \<open>Code generation\<close>

lemma no_component_files:
  "lang \<noteq> ''python'' \<Longrightarrow>
   fold (\<lambda>component fs.
           case generate_component_file component lang fw of
             Some (filename, text_of) \<Rightarrow> fs(filename \<mapsto> text_of)
           | None \<Rightarrow> fs) cs fs0 = fs0"
  by (induction cs arbitrary: fs0) (simp_all add: generate_component_file_def)

lemma component_files_keep:
  "k \<in> dom fs0 \<Longrightarrow>
   k \<in> dom (fold (\<lambda>component fs.
           case generate_component_file component lang fw of
             Some (filename, text_of) \<Rightarrow> fs(filename \<mapsto> text_of)
           | None \<Rightarrow> fs) cs fs0)"
  by (induction cs arbitrary: fs0) (auto split: option.splits)

lemma language_facts:
  "set supported_languages = {''python'', ''rust'', ''go'', ''typescript'', ''java'', ''cpp''}"
  "get_default_framework ''python'' = ''fastapi''" "get_default_framework ''rust'' = ''axum''"
  "get_default_framework ''go'' = ''gin''" "get_default_framework ''typescript'' = ''express''"
  "get_default_framework ''java'' = ''spring''" "get_default_framework ''cpp'' = ''crow''"
  by (auto simp: supported_languages_def get_default_framework_def lookup_or_def)

lemma template_facts:
  "map_of templates (''python'', ''fastapi'') = Some FastAPI_template"
  "map_of templates (''rust'', ''axum'') = Some Axum_template"
  "map_of templates (''go'', ''gin'') = None"
  "map_of templates (''typescript'', ''express'') = None"
  "map_of templates (''java'', ''spring'') = None"
  "map_of templates (''cpp'', ''crow'') = None"
  by (simp_all add: templates_def)

lemma main_filenames:
  "get_main_filename ''python'' = ''main.py''" "get_main_filename ''rust'' = ''main.rs''"
  by (simp_all add: get_main_filename_def lookup_or_def)

lemma generate_files_empty:
  assumes "lang \<noteq> ''python''" and "map_of templates (lang, fw) = None"
  shows "generate_files a lang fw = Map.empty"
  using assms by (simp add: generate_files_def Let_def no_component_files)

lemma strip_languages:
  "py_strip ''python'' \<noteq> []" "py_strip ''rust'' \<noteq> []" "py_strip ''go'' \<noteq> []"
  "py_strip ''typescript'' \<noteq> []" "py_strip ''java'' \<noteq> []" "py_strip ''cpp'' \<noteq> []"
  by (simp_all add: py_strip_nonempty py_isspace_def whitespace_chars_def)

lemma generate_code_default:
  assumes "lang \<in> set supported_languages"
  shows "generate_code a lang None =
           generated_code_post_init
              \<lparr>language = lang, framework = get_default_framework lang,
               files = generate_files a lang (get_default_framework lang),
               code_dependencies = extract_dependencies lang (get_default_framework lang),
               entry_point = get_main_filename lang,
               build_commands = get_build_commands lang (get_default_framework lang),
               run_commands = get_run_commands lang (get_default_framework lang),
               code_metadata = Map.empty\<rparr>"
  using assms by (simp add: generate_code_def Let_def get_entry_point_def)

lemma generate_code_without_template:
  assumes "lang \<in> {''go'', ''typescript'', ''java'', ''cpp''}"
  shows "generate_code a lang None
           = Inl (ValueError ''Generated code must contain at least one file'')"
proof -
  from assms consider "lang = ''go''" | "lang = ''typescript''" | "lang = ''java''"
    | "lang = ''cpp''" by blast
  then show ?thesis
  proof cases
    case 1
    have "generate_files a ''go'' ''gin'' = Map.empty"
      by (rule generate_files_empty) (simp_all add: template_facts)
    then show ?thesis unfolding 1
      by (simp add: generate_code_default language_facts generated_code_post_init_def
          strip_languages)
  next
    case 2
    have "generate_files a ''typescript'' ''express'' = Map.empty"
      by (rule generate_files_empty) (simp_all add: template_facts)
    then show ?thesis unfolding 2
      by (simp add: generate_code_default language_facts generated_code_post_init_def
          strip_languages)
  next
    case 3
    have "generate_files a ''java'' ''spring'' = Map.empty"
      by (rule generate_files_empty) (simp_all add: template_facts)
    then show ?thesis unfolding 3
      by (simp add: generate_code_default language_facts generated_code_post_init_def
          strip_languages)
  next
    case 4
    have "generate_files a ''cpp'' ''crow'' = Map.empty"
      by (rule generate_files_empty) (simp_all add: template_facts)
    then show ?thesis unfolding 4
      by (simp add: generate_code_default language_facts generated_code_post_init_def
          strip_languages)
  qed
qed

text \<open>
  C1. For go, typescript, java and cpp, \<open>generate_code\<close> does not return a
  \<open>GeneratedCode\<close>: \<open>_load_templates\<close> has no template for them and
  \<open>_generate_component_file\<close> writes files for python only, so the file map is empty and
  the constructor of \<open>GeneratedCode\<close> raises \<open>ValueError\<close>, whatever the architecture
  (\<open>generate_code_without_template\<close>). Here the generator runs on a one-component
  architecture for go.
\<close>

theorem generate_code_go:
  "generate_code one_service ''go'' None
     = Inl (ValueError ''Generated code must contain at least one file'')"
  by (rule generate_code_without_template) simp

lemma main_file_generated:
  assumes "map_of templates (lang, fw) = Some t"
  shows "get_main_filename lang \<in> dom (generate_files a lang fw)"
  unfolding generate_files_def Let_def
  by (rule component_files_keep) (simp add: assms)

text \<open>
  For python and rust, with the default framework, \<open>generate_code\<close> returns a
  \<open>GeneratedCode\<close> whose entry point is a key of its file map, for every architecture.
\<close>

theorem generate_code_entry_point:
  assumes "lang \<in> {''python'', ''rust''}"
  shows "\<exists>g. generate_code a lang None = Inr g \<and> entry_point g \<in> dom (files g)"
proof -
  from assms consider "lang = ''python''" | "lang = ''rust''" by blast
  then show ?thesis
  proof cases
    case 1
    have m: "get_main_filename ''python'' \<in> dom (generate_files a ''python'' ''fastapi'')"
      by (rule main_file_generated) (rule template_facts)
    then have "generate_files a ''python'' ''fastapi'' \<noteq> Map.empty" by auto
    with m show ?thesis unfolding 1
      by (simp add: generate_code_default language_facts generated_code_post_init_def
          strip_languages)
  next
    case 2
    have m: "get_main_filename ''rust'' \<in> dom (generate_files a ''rust'' ''axum'')"
      by (rule main_file_generated) (rule template_facts)
    then have "generate_files a ''rust'' ''axum'' \<noteq> Map.empty" by auto
    with m show ?thesis unfolding 2
      by (simp add: generate_code_default language_facts generated_code_post_init_def
          strip_languages)
  qed
qed

theorem generate_code_entry_point_witness:
  "\<exists>g. generate_code one_service ''python'' None = Inr g \<and> entry_point g \<in> dom (files g)"
  using generate_code_entry_point[of "''python''" one_service] by simp

subsection \<open>Confidence\<close>

lemma fold_count:
  "fold (\<lambda>s parsed. if P s then parsed + 1 else parsed) xs (n::nat) = n + length (filter P xs)"
  by (induction xs arbitrary: n) simp_all

lemma confidence_formula:
  "calculate_parsing_confidence c =
     (if statements c = [] then 0
      else real (length (filter (\<lambda>s. any_in intent_keywords (py_lower (content s))) (statements c)))
           / real (length (statements c)))"
  by (simp add: calculate_parsing_confidence_def Let_def fold_count)

lemma confidence_range:
  "0 \<le> calculate_parsing_confidence c" "calculate_parsing_confidence c \<le> 1"
proof -
  have "length (filter P (statements c)) \<le> length (statements c)" for P by simp
  then have "real (length (filter P (statements c))) \<le> real (length (statements c))" for P
    by (simp only: of_nat_le_iff)
  then show "calculate_parsing_confidence c \<le> 1"
    by (simp add: confidence_formula divide_le_eq_1)
  show "0 \<le> calculate_parsing_confidence c" by (simp add: confidence_formula)
qed

lemma parse_statements_succeeds:
  "\<exists>r. fst (parse_statements order cache c) = Inr r \<and>
        confidence_score r = calculate_parsing_confidence c \<and>
        extracted_entities r =
          order (entities (fold parse_statement_step (statements c)
                 \<lparr>functional_reqs = [], non_functional_reqs = [], constraints_acc = [],
                  business_rules_acc = [], entities = {}, entity_cache_of = cache\<rparr>))"
  by (simp add: parse_statements_def Let_def requirements_post_init_def confidence_range)

lemma parse_confidence:
  "map_sum id confidence_score (fst (parse_statements order cache c))
     = Inr (calculate_parsing_confidence c)"
  using parse_statements_succeeds[of order cache c] by auto

text \<open>
  C6. For every conversation, parsing succeeds and the confidence score of the returned
  requirements is the number of statements whose lower-cased content contains at least one
  of the keywords create, build, implement, need, want, should, must, divided by the number
  of statements; it is 0 for a conversation with no statement.
\<close>

theorem parsing_confidence:
  "\<exists>r cache'. parse_statements order cache c = (Inr r, cache') \<and>
     confidence_score r =
       (if statements c = [] then 0
        else real (length (filter
               (\<lambda>s. any_in [''create'', ''build'', ''implement'', ''need'', ''want'', ''should'', ''must'']
                      (py_lower (content s))) (statements c)))
             / real (length (statements c)))"
proof -
  obtain r where "fst (parse_statements order cache c) = Inr r"
    and "confidence_score r = calculate_parsing_confidence c"
    using parse_statements_succeeds[of order cache c] by blast
  then show ?thesis
    by (cases "parse_statements order cache c")
       (simp add: confidence_formula intent_keywords_def)
qed

lemma lower_implement: "py_lower ''Implement login'' = ''implement login''"
  by code_simp

lemma implement_facts:
  "statements implement_conversation = [statement_of ''Implement login'']"
  "content (statement_of txt) = txt"
  by (simp_all add: implement_conversation_def conversation_of_def statement_of_def)

text \<open>
  The one statement "Implement login" has the score 1; none of create, build, need, want,
  should, must occurs in it.
\<close>

theorem parsing_confidence_counterexample:
  "map_sum id confidence_score
     (fst (parse_statements sorted_list_of_set Map.empty implement_conversation)) = Inr 1 \<and>
   real (length (filter (\<lambda>s. any_in specified_intent_keywords (py_lower (content s)))
                   (statements implement_conversation)))
     / real (length (statements implement_conversation)) = 0"
  by (simp add: parse_confidence confidence_formula implement_facts lower_implement
      any_in_def intent_keywords_def specified_intent_keywords_def)

theorem parsing_confidence_witness:
  "\<exists>r cache'. parse_statements sorted_list_of_set Map.empty implement_conversation = (Inr r, cache')
     \<and> confidence_score r = 1"
  using parsing_confidence[of sorted_list_of_set Map.empty implement_conversation]
  by (simp add: implement_facts lower_implement any_in_def)


subsection \<open>Entities\<close>

lemma scan_subset: "set (scan_entities t) \<subseteq> set technical_keywords"
  by (simp add: scan_entities_def)

lemma extract_entities_sound:
  assumes "cache_sound cache"
  shows "fst (extract_entities cache t) = scan_entities t"
    and "cache_sound (snd (extract_entities cache t))"
proof -
  show "fst (extract_entities cache t) = scan_entities t"
    using assms by (cases "cache t") (simp_all add: extract_entities_def cache_sound_def Let_def)
  show "cache_sound (snd (extract_entities cache t))"
    using assms by (cases "cache t") (simp_all add: extract_entities_def cache_sound_def Let_def)
qed

lemma step_entities:
  assumes "cache_sound (entity_cache_of st)"
  shows "entities (parse_statement_step s st) = entities st \<union> set (scan_entities (content s))"
    and "cache_sound (entity_cache_of (parse_statement_step s st))"
proof -
  have e: "entity_cache_of (case statement_type s of
                  Some FUNCTIONAL \<Rightarrow>
                    st\<lparr>functional_reqs := functional_reqs st @ extract_functional_requirements s\<rparr>
                | Some NON_FUNCTIONAL \<Rightarrow>
                    st\<lparr>non_functional_reqs :=
                         non_functional_reqs st @ extract_non_functional_requirements s\<rparr>
                | Some CONSTRAINT \<Rightarrow>
                    st\<lparr>constraints_acc := constraints_acc st @ extract_constraints s\<rparr>
                | Some BUSINESS_RULE \<Rightarrow>
                    st\<lparr>business_rules_acc := business_rules_acc st @ extract_business_rules s\<rparr>
                | _ \<Rightarrow> st) = entity_cache_of st" (is "entity_cache_of ?st = _")
    by (simp split: option.splits statement_type.splits)
  have n: "entities ?st = entities st"
    by (simp split: option.splits statement_type.splits)
  show "entities (parse_statement_step s st) = entities st \<union> set (scan_entities (content s))"
    using extract_entities_sound(1)[OF assms, of "content s"]
    by (simp add: parse_statement_step_def Let_def split_def e n)
  show "cache_sound (entity_cache_of (parse_statement_step s st))"
    using extract_entities_sound(2)[OF assms, of "content s"]
    by (simp add: parse_statement_step_def Let_def split_def e)
qed

lemma fold_entities:
  assumes "cache_sound (entity_cache_of st)"
  shows "entities (fold parse_statement_step ss st)
           = entities st \<union> (\<Union>s\<in>set ss. set (scan_entities (content s)))
         \<and> cache_sound (entity_cache_of (fold parse_statement_step ss st))"
  using assms
proof (induction ss arbitrary: st)
  case Nil
  then show ?case by simp
next
  case (Cons s ss)
  from Cons.IH[OF step_entities(2)[OF Cons.prems, of s]] step_entities(1)[OF Cons.prems, of s]
  show ?case by auto
qed

lemma keywords_count: "length technical_keywords = 34" "distinct technical_keywords"
  by (simp_all add: technical_keywords_def)

lemma parsed_entities:
  assumes "set_listing order" and "cache_sound cache"
  shows "\<exists>r cache'. parse_statements order cache c = (Inr r, cache') \<and>
           set (extracted_entities r) = (\<Union>s\<in>set (statements c). set (scan_entities (content s))) \<and>
           cache_sound cache'"
proof -
  let ?init = "\<lparr>functional_reqs = [], non_functional_reqs = [], constraints_acc = [],
                  business_rules_acc = [], entities = {}, entity_cache_of = cache\<rparr>"
  let ?final = "fold parse_statement_step (statements c) ?init"
  have f: "entities ?final = (\<Union>s\<in>set (statements c). set (scan_entities (content s)))"
    "cache_sound (entity_cache_of ?final)"
    using fold_entities[where st = ?init and ss = "statements c"] assms(2) by simp_all
  have "finite (entities ?final)" unfolding f(1) by simp
  then have o: "set (order (entities ?final)) = entities ?final"
    using assms(1) by (simp add: set_listing_def)
  obtain r where r: "fst (parse_statements order cache c) = Inr r"
    "extracted_entities r = order (entities ?final)"
    using parse_statements_succeeds[of order cache c] by blast
  have s: "snd (parse_statements order cache c) = entity_cache_of ?final"
    by (simp add: parse_statements_def Let_def)
  show ?thesis
    using r s f o by (cases "parse_statements order cache c") simp
qed

text \<open>
  C7. For every conversation, \<open>parse_statements\<close> returns without raising, and the entities
  of the requirements it returns are a subset of the fixed technical-keyword vocabulary,
  which has 34 entries (api, database, user, authentication, ...), all different. The
  listing function stands for Python's \<open>list(set(...))\<close>; the cache is the parser's, sound
  from its construction on.
\<close>

theorem parsed_entities_in_vocabulary:
  assumes "set_listing order" and "cache_sound cache"
  shows "\<exists>r cache'. parse_statements order cache c = (Inr r, cache') \<and>
           set (extracted_entities r) \<subseteq> set technical_keywords \<and>
           length technical_keywords = 34 \<and> distinct technical_keywords \<and>
           cache_sound cache'"
proof -
  obtain r cache' where "parse_statements order cache c = (Inr r, cache')"
    and "set (extracted_entities r) = (\<Union>s\<in>set (statements c). set (scan_entities (content s)))"
    and "cache_sound cache'"
    using parsed_entities[OF assms, of c] by blast
  then show ?thesis using scan_subset keywords_count by fastforce
qed

lemma cache_empty: "cache_sound Map.empty"
  by (simp add: cache_sound_def)

theorem parsed_entities_in_vocabulary_witness:
  "\<exists>r cache'. parse_statements sorted_list_of_set Map.empty implement_conversation = (Inr r, cache')
     \<and> set (extracted_entities r) \<subseteq> set technical_keywords"
  using parsed_entities_in_vocabulary[OF listing_sorted cache_empty, of implement_conversation]
  by blast

lemma scan_every_keyword: "scan_entities (py_join '' '' technical_keywords) = technical_keywords"
  by code_simp

lemma every_keyword_facts:
  "statements every_keyword_conversation = [statement_of (py_join '' '' technical_keywords)]"
  by (simp add: every_keyword_conversation_def conversation_of_def)

text \<open>
  A statement that names every keyword yields all of them: 34 entities.
\<close>

theorem parsed_entities_counterexample:
  "map_sum id (\<lambda>r. set (extracted_entities r))
     (fst (parse_statements sorted_list_of_set Map.empty every_keyword_conversation))
     = Inr (set technical_keywords) \<and>
   card (set technical_keywords) = 34"
proof -
  obtain r cache' where
    "parse_statements sorted_list_of_set Map.empty every_keyword_conversation = (Inr r, cache')"
    and "set (extracted_entities r)
           = (\<Union>s\<in>set (statements every_keyword_conversation). set (scan_entities (content s)))"
    using parsed_entities[OF listing_sorted cache_empty, of every_keyword_conversation] by blast
  then have "map_sum id (\<lambda>r. set (extracted_entities r))
     (fst (parse_statements sorted_list_of_set Map.empty every_keyword_conversation))
     = Inr (set technical_keywords)"
    by (simp add: every_keyword_facts implement_facts scan_every_keyword)
  moreover have "card (set technical_keywords) = 34"
    using keywords_count by (simp add: distinct_card)
  ultimately show ?thesis by simp
qed

subsection \<open>Extraction\<close>

lemma fields_present:
  "find (field_missing s) required_fields = None \<longleftrightarrow>
     statement_context s \<noteq> None \<and> timestamp s \<noteq> None \<and> speaker s \<noteq> None \<and>
     statement_type s \<noteq> None"
  by (simp add: required_fields_def field_missing_def)

lemma validate_statement_iff:
  "isl (validate_statement s) \<longleftrightarrow> statement_invalid s"
proof (cases "find (field_missing s) required_fields")
  case None
  then show ?thesis
    using fields_present[of s] by (simp add: validate_statement_def statement_invalid_def)
next
  case (Some f)
  then have "\<not> (statement_context s \<noteq> None \<and> timestamp s \<noteq> None \<and> speaker s \<noteq> None \<and>
     statement_type s \<noteq> None)"
    using fields_present[of s] by simp
  then show ?thesis
    using Some by (auto simp: validate_statement_def statement_invalid_def)
qed

lemma validate_statements_from_iff:
  "isl (validate_statements_from i ss) \<longleftrightarrow> (\<exists>s\<in>set ss. statement_invalid s)"
proof (induction ss arbitrary: i)
  case Nil
  show ?case by simp
next
  case (Cons s ss)
  show ?case
  proof (cases "validate_statement s")
    case (Inl e)
    then have "statement_invalid s" using validate_statement_iff[of s] by simp
    then show ?thesis using Inl by simp
  next
    case (Inr u)
    then have "\<not> statement_invalid s" using validate_statement_iff[of s] by simp
    then show ?thesis using Inr Cons.IH[of "Suc i"] by simp
  qed
qed

lemma validate_statements_from_error:
  "validate_statements_from i ss = Inl e \<Longrightarrow> \<exists>m. e = ConversationProcessingError m"
  by (induction ss arbitrary: i) (auto split: sum.splits)

lemma validate_conversation_iff:
  "isl (validate_conversation c) \<longleftrightarrow>
     statements c = [] \<or> length (statements c) > 1000 \<or>
     (\<exists>s\<in>set (statements c). statement_invalid s)"
  by (auto simp: validate_conversation_def validate_statements_from_iff)

lemma validate_conversation_error:
  "validate_conversation c = Inl e \<Longrightarrow> \<exists>m. e = ConversationProcessingError m"
  by (auto simp: validate_conversation_def split: if_splits dest: validate_statements_from_error)

text \<open>
  C2. Extraction fails if and only if the conversation has no statement, has more than 1000
  statements, or has a statement that \<open>_validate_statement\<close> rejects: content empty after
  stripping, content longer than 10000 characters, or a required field that is \<open>None\<close>.
  Every failure is a \<open>ConversationProcessingError\<close> and leaves the parser's cache as it
  was; on every other conversation extraction returns the full result of
  \<open>parse_statements\<close>. The confidence of a statement is not looked at: the constructor of
  \<open>Statement\<close> is what rejects one out of range.
\<close>

theorem extraction_fails_iff:
  "(isl (fst (extract_requirements order cache c)) \<longleftrightarrow>
      statements c = [] \<or> length (statements c) > 1000 \<or>
      (\<exists>s\<in>set (statements c). statement_invalid s)) \<and>
   (isl (fst (extract_requirements order cache c)) \<longrightarrow>
      (\<exists>m. extract_requirements order cache c = (Inl (ConversationProcessingError m), cache))) \<and>
   (\<not> isl (fst (extract_requirements order cache c)) \<longrightarrow>
      (\<exists>r. fst (extract_requirements order cache c) = Inr r) \<and>
      extract_requirements order cache c = parse_statements order cache c)"
proof (cases "validate_conversation c")
  case (Inl e)
  then obtain m where "e = ConversationProcessingError m"
    using validate_conversation_error by blast
  then show ?thesis
    using Inl validate_conversation_iff[of c] by (simp add: extract_requirements_def)
next
  case (Inr u)
  obtain r where "fst (parse_statements order cache c) = Inr r"
    using parse_statements_succeeds[of order cache c] by blast
  then show ?thesis
    using Inr validate_conversation_iff[of c] by (simp add: extract_requirements_def)
qed

lemma statement_of_valid:
  "\<not> statement_invalid (statement_of ''Implement login'')"
  "statement_post_init (statement_of ''Implement login'') = Inr (statement_of ''Implement login'')"
  by (simp_all add: statement_invalid_def statement_post_init_def statement_of_def
      py_strip_nonempty py_isspace_def whitespace_chars_def)

text \<open>
  A conversation of 1001 statements, each of them valid, is rejected as too long.
\<close>

theorem extraction_fails_counterexample:
  "extract_requirements sorted_list_of_set Map.empty long_conversation
     = (Inl (ConversationProcessingError ''Conversation too long (>1000 statements)''), Map.empty) \<and>
   statements long_conversation = replicate 1001 (statement_of ''Implement login'') \<and>
   \<not> statement_invalid (statement_of ''Implement login'') \<and>
   statement_post_init (statement_of ''Implement login'') = Inr (statement_of ''Implement login'')"
  by (simp add: statement_of_valid)
     (simp add: extract_requirements_def validate_conversation_def long_conversation_def
      conversation_of_def)

theorem extraction_fails_witness:
  "\<exists>r. fst (extract_requirements sorted_list_of_set Map.empty implement_conversation) = Inr r"
proof -
  have "\<not> (statements implement_conversation = [] \<or> length (statements implement_conversation) > 1000 \<or>
      (\<exists>s\<in>set (statements implement_conversation). statement_invalid s))"
    by (simp add: implement_facts statement_of_valid)
  with extraction_fails_iff[of sorted_list_of_set Map.empty implement_conversation]
  show ?thesis by blast
qed

end
